theory Spec2Isabelle
  imports Complex_Main
begin

section \<open>Data model\<close>

text \<open>
  The numeric payload of one channel is a numpy array; it is represented by the list of
  its elements (the array flattened). The module itself never computes with the elements:
  the two places where it would (the running mean of \<open>data_ready\<close> and the comparison
  of \<open>_process_overshoot\<close>) first subscript a batch element with a string, which raises.
\<close>

type_synonym ndarray = "rat list"

datatype exn = AttributeError | IndexError | KeyError | TypeError | ValueError
  | DriverError string

text \<open>The untyped values that travel in status dictionaries and signal payloads.\<close>

datatype pyval = VNone | VBool bool | VInt int | VStr string | VHandle nat | VAxis "rat list"

datatype DataDim = Data0D | Data1D | Data2D | DataND

text \<open>One element of a batch: a \<open>DataFromPlugins\<close> object with the attributes
  \<open>name\<close>, \<open>dim\<close>, \<open>data\<close> (the list of channel arrays) and \<open>origin\<close>.\<close>

record DataFromPlugins =
  name :: string
  dim :: DataDim
  data :: "ndarray list"
  origin :: string

text \<open>The hardware plugin as the worker sees it: the attribute \<open>live_mode_available\<close>.\<close>

record driver =
  live_mode_available :: bool

text \<open>The attributes of \<open>DAQ_Detector\<close> set in \<open>__init__\<close>. The counter
  \<open>ind_average\<close> starts at 0 and is only incremented or reset to 0, so it is a natural
  number; \<open>Naverage\<close> and \<open>datas\<close> start as \<open>None\<close>.\<close>

record DAQ_Detector =
  waiting_for_data :: bool
  detector :: "driver option"
  grab_state :: bool
  single_grab :: bool
  datas :: "DataFromPlugins list option"
  ind_average :: nat
  Naverage :: "int option"
  average_done :: bool
  hardware_averaging :: bool
  show_averaging :: bool
  wait_time :: nat

text \<open>What the worker does to the outside: the signals it emits, the calls it makes on
  the plugin, and the exceptions it logs (\<open>Logged\<close>) or lets escape (\<open>Uncaught\<close>).\<close>

datatype worker_event =
    Data_detector_sig "DataFromPlugins list"
  | Data_detector_temp_sig "DataFromPlugins list"
  | Status_sig string "pyval list"
  | Detector_grab_data int bool nat
  | Detector_stop
  | Detector_call string
  | Logged exn
  | Uncaught exn

section \<open>The worker: \<open>DAQ_Detector.data_ready\<close>\<close>

text \<open>\<open>dat[key]\<close> with a string key on a \<open>DataFromPlugins\<close> object. The class lives in
  \<open>pymodaq.utils.data\<close>, which is not among the given sources: its \<open>__getitem__\<close> serves an
  integer index below the number of channel arrays and raises \<open>IndexError\<close> for every
  other key. A string subscript therefore yields no value; the function gives the
  exception it raises.\<close>

definition getitem_str :: "DataFromPlugins \<Rightarrow> string \<Rightarrow> exn" where
  "getitem_str dat key = IndexError"

text \<open>The body of the \<open>try\<close> of \<open>data_ready\<close> for the second and later samples of a
  cycle, as the events it leaves (the stored batch is given with the flag
  \<open>show_averaging\<close>). The loop \<open>for indpannel, dic in enumerate(datas)\<close> assigns
  \<open>self.datas[indpannel]['data']\<close> a list comprehension over
  \<open>range(len(datas[indpannel]['data']))\<close>; Python evaluates that range first, and for the
  first element of the new sample the subscript \<open>['data']\<close> raises, which the \<open>except\<close>
  logs: the arithmetic \<open>((n - 1) * old + new) / n\<close> behind it is never reached and the
  stored batch is not touched. Only an empty sample passes the loop; then the stored batch
  is emitted as temporary data when \<open>show_averaging\<close> is set, and emitting \<open>None\<close> on a
  \<open>Signal(list)\<close> raises inside the \<open>try\<close>.\<close>

definition fold_sample :: "DataFromPlugins list option \<Rightarrow> bool \<Rightarrow> DataFromPlugins list
    \<Rightarrow> worker_event list" where
  "fold_sample stored temp batch =
     (case batch of
        dat # _ \<Rightarrow> [Logged (getitem_str dat ''data'')]
      | [] \<Rightarrow>
          (if temp then
             (case stored of
                None \<Rightarrow> [Logged TypeError]
              | Some d \<Rightarrow> [Data_detector_temp_sig d])
           else []))"

text \<open>\<open>data_ready\<close>. The elements of a batch are \<open>DataFromPlugins\<close> objects, so the
  back-compatibility loop at its head changes nothing. With software averaging the sample
  is counted and stored (first of a cycle) or handed to the \<open>try\<close> above; the stored
  batch is emitted when the counter equals \<open>Naverage\<close>. Emitting \<open>None\<close> on a
  \<open>Signal(list)\<close> raises, outside any \<open>try\<close>.\<close>

definition data_ready :: "DataFromPlugins list \<Rightarrow> DAQ_Detector
    \<Rightarrow> DAQ_Detector \<times> worker_event list" where
  "data_ready batch w =
     (case
        (if \<not> hardware_averaging w then
           (let n = ind_average w + 1;
                wa = w\<lparr>ind_average := n\<rparr>;
                (wb, evb) =
                  (if n = 1 then (wa\<lparr>datas := Some batch\<rparr>, [])
                   else (wa, fold_sample (datas wa) (show_averaging wa) batch))
            in if Naverage wb = Some (int n) then
                 (case datas wb of
                    None \<Rightarrow> (wb\<lparr>average_done := True\<rparr>, evb @ [Uncaught TypeError], True)
                  | Some d \<Rightarrow>
                      (wb\<lparr>average_done := True, ind_average := 0\<rparr>,
                       evb @ [Data_detector_sig d], False))
               else (wb, evb, False))
         else (w, [Data_detector_sig batch], False))
      of (w1, ev1, raised) \<Rightarrow>
        if raised then (w1, ev1)
        else
          (let w2 = w1\<lparr>waiting_for_data := False\<rparr>
           in if \<not> grab_state w2 then
                (case detector w2 of
                   None \<Rightarrow> (w2, ev1 @ [Uncaught AttributeError])
                 | Some _ \<Rightarrow> (w2, ev1 @ [Detector_stop]))
              else (w2, ev1)))"

text \<open>Successive completion callbacks, in the order the plugin delivers them.\<close>

fun callbacks :: "DataFromPlugins list list \<Rightarrow> DAQ_Detector
    \<Rightarrow> DAQ_Detector \<times> worker_event list" where
  "callbacks [] w = (w, [])"
| "callbacks (b # bs) w =
     (case data_ready b w of (w1, e1) \<Rightarrow>
        (case callbacks bs w1 of (w2, e2) \<Rightarrow> (w2, e1 @ e2)))"

text \<open>The batches emitted on \<open>data_detector_sig\<close> in a trace.\<close>

fun emitted :: "worker_event list \<Rightarrow> DataFromPlugins list list" where
  "emitted [] = []"
| "emitted (Data_detector_sig d # es) = d # emitted es"
| "emitted (_ # es) = emitted es"

text \<open>The specification's mean: the elementwise arithmetic mean of the samples, element
  \<open>e\<close> of channel \<open>c\<close> of panel \<open>p\<close> being the sum of that element over all samples
  divided by their number.\<close>

definition arithmetic_mean :: "DataFromPlugins list list \<Rightarrow> ndarray list list" where
  "arithmetic_mean xs =
     map (\<lambda>p. map (\<lambda>c. map (\<lambda>e. (\<Sum>x\<leftarrow>xs. data (x ! p) ! c ! e) / of_nat (length xs))
                          [0..<length (data (hd xs ! p) ! c)])
                [0..<length (data (hd xs ! p))])
         [0..<length (hd xs)]"

section \<open>Example states and batches of the worker\<close>

text \<open>The worker as \<open>__init__\<close> leaves it (the wait time comes from the settings), and
  a batch of one 0D panel with one single-valued channel per given value.\<close>

definition worker_init :: "nat \<Rightarrow> DAQ_Detector" where
  "worker_init wt =
     \<lparr>waiting_for_data = False, detector = None, grab_state = False, single_grab = False,
      datas = None, ind_average = 0, Naverage = None, average_done = False,
      hardware_averaging = False, show_averaging = False, wait_time = wt\<rparr>"

definition sample0D :: "rat list \<Rightarrow> DataFromPlugins list" where
  "sample0D vs = [\<lparr>name = ''Mock'', dim = Data0D, data = map (\<lambda>v. [v]) vs, origin = ''''\<rparr>]"

section \<open>The worker: commands and the grab loop\<close>

text \<open>The commands of \<open>queue_command\<close> that can reach a running grab loop through
  \<open>processEvents\<close>. \<open>Driver_method\<close> stands for \<open>update_scanner\<close>,
  \<open>move_at_navigator\<close>, \<open>update_com\<close> and \<open>get_axis\<close>, which only call the plugin;
  \<open>Custom\<close> is the final branch, with the answer of \<open>hasattr\<close>. The commands
  \<open>grab\<close> and \<open>single\<close> start a loop of their own inside the running one; they
  are added to this environment in the section on acquisitions started inside a running
  loop. \<open>ini_detector\<close> and \<open>close\<close>, which build and close the plugin, are not part
  of the environment of a loop.\<close>

datatype command =
    Stop_grab
  | Stop_all
  | Update_wait_time nat
  | Driver_method string
  | Custom string bool

text \<open>What the event loop delivers to the worker: a completion callback of the plugin
  or a queued command.\<close>

datatype env_event = Ev_data_ready "DataFromPlugins list" | Ev_command command

text \<open>A trace interleaves what the worker receives with what it does.\<close>

datatype io = Recv env_event | Emit worker_event

text \<open>\<open>queue_command\<close> on one command. For \<open>stop_all\<close> the call of
  \<open>processEvents\<close> between the plugin's \<open>stop\<close> and the status message is in
  \<open>process_events\<close> below, which owns the pending events.\<close>

fun queue_command :: "command \<Rightarrow> DAQ_Detector \<Rightarrow> DAQ_Detector \<times> worker_event list" where
  "queue_command Stop_grab w =
     (w\<lparr>grab_state := False\<rparr>, [Status_sig ''Update_Status'' [VStr ''Stoping grab'']])"
| "queue_command Stop_all w =
     (case detector w of
        None \<Rightarrow> (w\<lparr>grab_state := False\<rparr>, [Uncaught AttributeError])
      | Some _ \<Rightarrow>
          (w\<lparr>grab_state := False\<rparr>,
           [Detector_stop, Status_sig ''Update_Status'' [VStr ''Stoping grab'']]))"
| "queue_command (Update_wait_time t) w = (w\<lparr>wait_time := t\<rparr>, [])"
| "queue_command (Driver_method m) w =
     (case detector w of
        None \<Rightarrow> (w, [Uncaught AttributeError])
      | Some _ \<Rightarrow> (w, [Detector_call m]))"
| "queue_command (Custom m has) w =
     (case detector w of
        None \<Rightarrow> (w, [])
      | Some _ \<Rightarrow> (w, if has then [Detector_call m] else []))"

text \<open>\<open>QtWidgets.QApplication.processEvents()\<close> in the worker's thread: the pending
  events are dispatched in order, a callback to \<open>data_ready\<close> and a command to
  \<open>queue_command\<close>. \<open>stop_all\<close> pumps the event loop itself, so the events behind it
  are handled before its status message goes out. This is \<open>processEvents\<close> for pending
  events other than \<open>grab\<close> and \<open>single\<close> commands; \<open>dispatch_events\<close> below handles
  those too and agrees with it when there are none.\<close>

fun process_events :: "env_event list \<Rightarrow> DAQ_Detector \<Rightarrow> DAQ_Detector \<times> io list" where
  "process_events [] w = (w, [])"
| "process_events (Ev_data_ready b # es) w =
     (case data_ready b w of (w1, ev) \<Rightarrow>
        (case process_events es w1 of (w2, tr) \<Rightarrow>
           (w2, Recv (Ev_data_ready b) # map Emit ev @ tr)))"
| "process_events (Ev_command Stop_all # es) w =
     (case detector w of
        None \<Rightarrow>
          (case process_events es (w\<lparr>grab_state := False\<rparr>) of (w2, tr) \<Rightarrow>
             (w2, Recv (Ev_command Stop_all) # Emit (Uncaught AttributeError) # tr))
      | Some _ \<Rightarrow>
          (case process_events es (w\<lparr>grab_state := False\<rparr>) of (w2, tr) \<Rightarrow>
             (w2, Recv (Ev_command Stop_all) # Emit Detector_stop # tr @
                  [Emit (Status_sig ''Update_Status'' [VStr ''Stoping grab''])])))"
| "process_events (Ev_command c # es) w =
     (case queue_command c w of (w1, ev) \<Rightarrow>
        (case process_events es w1 of (w2, tr) \<Rightarrow>
           (w2, Recv (Ev_command c) # map Emit ev @ tr)))"

text \<open>What the environment does during one iteration of the \<open>while True\<close> loop: the
  batches the plugin hands to \<open>data_ready\<close> before its own \<open>grab_data\<close> returns (a
  plugin that emits in the calling thread), whether that call raises, and the events that
  \<open>processEvents\<close> finds pending.\<close>

record iteration =
  sync_data :: "DataFromPlugins list list"
  grab_error :: "exn option"
  pending :: "env_event list"

text \<open>The tests at the end of the loop body, in the order of the source; \<open>msleep\<close>
  changes no attribute. True means \<open>break\<close>.\<close>

definition loop_exit :: "bool \<Rightarrow> DAQ_Detector \<Rightarrow> bool" where
  "loop_exit lma w =
     (if single_grab w \<and> hardware_averaging w then True
      else if single_grab w \<and> average_done w then True
      else if \<not> grab_state w then True
      else if lma then True
      else False)"

text \<open>The \<open>while True\<close> loop of \<open>grab_data\<close>. The loop has no bound of its own, so it
  is run on the list of its iterations' environments: the result says whether the loop
  has left through a \<open>break\<close> (True) or is still running when the list ends (False).
  An exception in the body is logged and the loop goes on, without \<open>processEvents\<close>
  and without any test.\<close>

fun grab_loop :: "int \<Rightarrow> bool \<Rightarrow> nat \<Rightarrow> bool \<Rightarrow> iteration list \<Rightarrow> DAQ_Detector
    \<Rightarrow> DAQ_Detector \<times> io list \<times> bool" where
  "grab_loop N live wt lma [] w = (w, [], False)"
| "grab_loop N live wt lma (it # its) w =
     (case
        (if \<not> waiting_for_data w then
           (case process_events (map Ev_data_ready (sync_data it))
                   (w\<lparr>waiting_for_data := True\<rparr>) of
              (w1, tr) \<Rightarrow> (w1, Emit (Detector_grab_data N live wt) # tr, grab_error it))
         else (w, [], None))
      of
        (w1, tr1, Some e) \<Rightarrow>
          (case grab_loop N live wt lma its w1 of (w2, tr2, ex) \<Rightarrow>
             (w2, tr1 @ Emit (Logged e) # tr2, ex))
      | (w1, tr1, None) \<Rightarrow>
          (case process_events (pending it) w1 of (w2, tr2) \<Rightarrow>
             if loop_exit lma w2 then (w2, tr1 @ tr2, True)
             else
               (case grab_loop N live wt lma its w2 of (w3, tr3, ex) \<Rightarrow>
                  (w3, tr1 @ tr2 @ tr3, ex))))"






section \<open>The worker: acquisitions started inside a running loop\<close>

text \<open>\<open>processEvents\<close> dispatches the commands \<open>grab\<close> and \<open>single\<close> like every other
  queued command, also while a grab loop is running. \<open>queue_command\<close> then sets
  \<open>single_grab\<close> and \<open>grab_state\<close> and calls \<open>grab_data\<close> (for \<open>single\<close> through
  \<open>single\<close>, with \<open>live = False\<close>): a second loop runs inside the \<open>processEvents\<close> of
  the first and returns to it when it leaves. Such a command is given here with the
  environment of the loop it starts, one \<open>Round\<close> per iteration (the synchronous
  callbacks, the exception of the plugin's call, the events \<open>processEvents\<close> dispatches),
  and that environment may hold further commands of the kind.\<close>

datatype acquisition = Grab int "round list" | Single int "round list"
  and round = Round "DataFromPlugins list list" "exn option" "dispatch list"
  and dispatch = Event env_event | Start acquisition

text \<open>The four functions follow \<open>queue_command\<close> (branches \<open>grab\<close> and \<open>single\<close>),
  \<open>grab_data\<close>, its \<open>while True\<close> loop and \<open>processEvents\<close>. The last component of a
  result says whether the call has returned (for the loop: left through \<open>break\<close>) within
  the environment given. A \<open>processEvents\<close> that has not returned is inside an acquisition
  that is still running: nothing behind it is executed, neither the rest of the pending
  events nor the tests of the interrupted loop. The trace is in the order of execution,
  the requests of an inner loop between those of the outer one.\<close>

fun run_acquisition :: "acquisition \<Rightarrow> DAQ_Detector \<Rightarrow> DAQ_Detector \<times> io list \<times> bool"
  and reentrant_grab_data :: "int \<Rightarrow> bool \<Rightarrow> round list \<Rightarrow> DAQ_Detector
    \<Rightarrow> DAQ_Detector \<times> io list \<times> bool"
  and reentrant_loop :: "int \<Rightarrow> bool \<Rightarrow> nat \<Rightarrow> bool \<Rightarrow> round list \<Rightarrow> DAQ_Detector
    \<Rightarrow> DAQ_Detector \<times> io list \<times> bool"
  and dispatch_events :: "dispatch list \<Rightarrow> DAQ_Detector \<Rightarrow> DAQ_Detector \<times> io list \<times> bool"
where
  "run_acquisition (Grab N rounds) w =
     reentrant_grab_data N True rounds (w\<lparr>single_grab := False, grab_state := True\<rparr>)"
| "run_acquisition (Single N rounds) w =
     reentrant_grab_data N False rounds (w\<lparr>single_grab := True, grab_state := True\<rparr>)"
| "reentrant_grab_data N live rounds w =
     (let w1 = w\<lparr>ind_average := 0, Naverage := Some N\<rparr>;
          w2 = (if N > 1 then w1\<lparr>average_done := False\<rparr> else w1);
          w3 = w2\<lparr>waiting_for_data := False\<rparr>
      in case detector w3 of
           None \<Rightarrow> (w3, [Emit (Logged AttributeError)], True)
         | Some drv \<Rightarrow>
             (let wt = (if live_mode_available drv then wait_time w3 else 0)
              in case reentrant_loop N live wt (live_mode_available drv) rounds w3 of
                   (w4, tr, exited) \<Rightarrow>
                     (w4,
                      Emit (Status_sig ''grab'' []) # tr @
                        (if exited then [Emit (Status_sig ''grab_stopped'' [])] else []),
                      exited)))"
| "reentrant_loop N live wt lma [] w = (w, [], False)"
| "reentrant_loop N live wt lma (Round sync err pend # rounds) w =
     (case
        (if \<not> waiting_for_data w then
           (case process_events (map Ev_data_ready sync) (w\<lparr>waiting_for_data := True\<rparr>) of
              (w1, tr) \<Rightarrow> (w1, Emit (Detector_grab_data N live wt) # tr, err))
         else (w, [], None))
      of
        (w1, tr1, Some e) \<Rightarrow>
          (case reentrant_loop N live wt lma rounds w1 of (w2, tr2, ex) \<Rightarrow>
             (w2, tr1 @ Emit (Logged e) # tr2, ex))
      | (w1, tr1, None) \<Rightarrow>
          (case dispatch_events pend w1 of (w2, tr2, returned) \<Rightarrow>
             if \<not> returned then (w2, tr1 @ tr2, False)
             else if loop_exit lma w2 then (w2, tr1 @ tr2, True)
             else
               (case reentrant_loop N live wt lma rounds w2 of (w3, tr3, ex) \<Rightarrow>
                  (w3, tr1 @ tr2 @ tr3, ex))))"
| "dispatch_events [] w = (w, [], True)"
| "dispatch_events (Start a # ds) w =
     (case run_acquisition a w of (w1, tr1, returned) \<Rightarrow>
        if \<not> returned then (w1, tr1, False)
        else (case dispatch_events ds w1 of (w2, tr2, r) \<Rightarrow> (w2, tr1 @ tr2, r)))"
| "dispatch_events (Event (Ev_data_ready b) # ds) w =
     (case data_ready b w of (w1, ev) \<Rightarrow>
        (case dispatch_events ds w1 of (w2, tr, r) \<Rightarrow>
           (w2, Recv (Ev_data_ready b) # map Emit ev @ tr, r)))"
| "dispatch_events (Event (Ev_command c) # ds) w =
     (if c = Stop_all then
        (case dispatch_events ds (w\<lparr>grab_state := False\<rparr>) of (w2, tr, r) \<Rightarrow>
           (case detector w of
              None \<Rightarrow> (w2, Recv (Ev_command Stop_all) # Emit (Uncaught AttributeError) # tr, r)
            | Some _ \<Rightarrow>
                (w2, Recv (Ev_command Stop_all) # Emit Detector_stop # tr @
                     (if r then [Emit (Status_sig ''Update_Status'' [VStr ''Stoping grab''])]
                      else []), r)))
      else
        (case queue_command c w of (w1, ev) \<Rightarrow>
           (case dispatch_events ds w1 of (w2, tr, r) \<Rightarrow>
              (w2, Recv (Ev_command c) # map Emit ev @ tr, r))))"
section \<open>The worker: \<open>DAQ_Detector.ini_detector\<close>\<close>

text \<open>A status dictionary (\<open>edict\<close>) maps attribute names to values.\<close>

type_synonym edict = "string \<rightharpoonup> pyval"

text \<open>What the plugin's own \<open>ini_detector\<close> returns: an \<open>edict\<close>, or something that is
  indexed (\<open>infos[0]\<close>, \<open>infos[1]\<close>).\<close>

datatype infos = Infos_edict edict | Infos_tuple "pyval list"

text \<open>The plugin class that \<open>get_viewer_plugins\<close> returns, by what each use of it in
  \<open>ini_detector\<close> does: the constructor \<open>class_(self, params_state)\<close> may raise, the
  connection of the two data signals may raise, the plugin's initializer returns or
  raises, and so do the reads of \<open>self.detector.controller\<close> and of the class attribute
  \<open>hardware_averaging\<close>.\<close>

record plugin_class =
  construct :: "exn option"
  instance_live_mode :: bool
  connect_signals :: "exn option"
  plugin_ini_detector :: "exn + infos"
  plugin_controller :: "exn + pyval"
  class_hardware_averaging :: "exn + bool"

text \<open>\<open>str(e)\<close>.\<close>

fun str_exn :: "exn \<Rightarrow> string" where
  "str_exn AttributeError = ''AttributeError''"
| "str_exn IndexError = ''IndexError''"
| "str_exn KeyError = ''KeyError''"
| "str_exn TypeError = ''TypeError''"
| "str_exn ValueError = ''ValueError''"
| "str_exn (DriverError msg) = msg"

text \<open>\<open>edict(initialized=False, info="", x_axis=None, y_axis=None)\<close>.\<close>

definition initial_status :: edict where
  "initial_status =
     [''initialized'' \<mapsto> VBool False, ''info'' \<mapsto> VStr '''', ''x_axis'' \<mapsto> VNone,
      ''y_axis'' \<mapsto> VNone]"

text \<open>The inner \<open>try\<close>: signals, the plugin's initializer, the controller handle. It
  yields \<open>infos\<close>, the status with its \<open>controller\<close> entry, and what was logged.\<close>

definition init_plugin :: "plugin_class \<Rightarrow> edict \<Rightarrow> infos \<times> edict \<times> worker_event list" where
  "init_plugin cls status =
     (let failed = (\<lambda>e. (Infos_tuple [VStr (str_exn e), VBool False],
                          status(''controller'' \<mapsto> VNone), [Logged e]))
      in case connect_signals cls of
           Some e \<Rightarrow> failed e
         | None \<Rightarrow>
             (case plugin_ini_detector cls of
                Inl e \<Rightarrow> failed e
              | Inr i \<Rightarrow>
                  (case plugin_controller cls of
                     Inl e \<Rightarrow> failed e
                   | Inr c \<Rightarrow> (i, status(''controller'' \<mapsto> c), []))))"

text \<open>The statements after the inner \<open>try\<close>: \<open>infos\<close> is merged into the status, the
  axes are announced, the class attribute is read. Each can raise; the result carries the
  status as it is at that moment.\<close>

definition merge_infos :: "infos \<Rightarrow> edict \<Rightarrow> exn option \<times> edict" where
  "merge_infos i status =
     (case i of
        Infos_edict m \<Rightarrow> (None, status ++ m)
      | Infos_tuple [] \<Rightarrow> (Some IndexError, status)
      | Infos_tuple [a] \<Rightarrow> (Some IndexError, status(''info'' \<mapsto> a))
      | Infos_tuple (a # b # _) \<Rightarrow> (None, status(''info'' \<mapsto> a, ''initialized'' \<mapsto> b)))"

definition announce_axis :: "string \<Rightarrow> edict \<Rightarrow> exn option \<times> worker_event list" where
  "announce_axis key status =
     (case status key of
        None \<Rightarrow> (Some KeyError, [])
      | Some VNone \<Rightarrow> (None, [])
      | Some v \<Rightarrow> (None, [Status_sig key [v]]))"

text \<open>\<open>ini_detector\<close>. The first component is what the caller gets: \<open>Inr\<close> a returned
  status, \<open>Inl\<close> an exception that leaves the method. The outer handler logs and returns
  the status as the body left it.\<close>

definition ini_detector :: "(exn + plugin_class) \<Rightarrow> DAQ_Detector
    \<Rightarrow> (exn + edict) \<times> DAQ_Detector \<times> worker_event list" where
  "ini_detector plugins w =
     (let status = initial_status
      in case plugins of
           Inl e \<Rightarrow> (Inr status, w, [Logged e])
         | Inr cls \<Rightarrow>
             (case construct cls of
                Some e \<Rightarrow> (Inr status, w, [Logged e])
              | None \<Rightarrow>
                  (let w1 = w\<lparr>detector := Some \<lparr>live_mode_available = instance_live_mode cls\<rparr>\<rparr>
                   in case init_plugin cls status of
                        (i, status1, ev1) \<Rightarrow>
                          (case merge_infos i status1 of
                             (Some e, status2) \<Rightarrow> (Inr status2, w1, ev1 @ [Logged e])
                           | (None, status2) \<Rightarrow>
                               (case announce_axis ''x_axis'' status2 of
                                  (Some e, ev2) \<Rightarrow> (Inr status2, w1, ev1 @ ev2 @ [Logged e])
                                | (None, ev2) \<Rightarrow>
                                    (case announce_axis ''y_axis'' status2 of
                                       (Some e, ev3) \<Rightarrow>
                                         (Inr status2, w1, ev1 @ ev2 @ ev3 @ [Logged e])
                                     | (None, ev3) \<Rightarrow>
                                         (case class_hardware_averaging cls of
                                            Inl e \<Rightarrow>
                                              (Inr status2, w1, ev1 @ ev2 @ ev3 @ [Logged e])
                                          | Inr h \<Rightarrow>
                                              (Inr status2, w1\<lparr>hardware_averaging := h\<rparr>,
                                               ev1 @ ev2 @ ev3))))))))"

text \<open>A plugin whose initializer raises and one whose constructor raises, for the
  examples.\<close>

definition failing_plugin :: plugin_class where
  "failing_plugin =
     \<lparr>construct = None, instance_live_mode = False, connect_signals = None,
      plugin_ini_detector = Inl (DriverError ''no device''),
      plugin_controller = Inr (VHandle 0), class_hardware_averaging = Inr False\<rparr>"


definition failing_constructor :: plugin_class where
  "failing_constructor =
     \<lparr>construct = Some (DriverError ''no driver''), instance_live_mode = False,
      connect_signals = None, plugin_ini_detector = Inr (Infos_edict Map.empty),
      plugin_controller = Inr (VHandle 0), class_hardware_averaging = Inr False\<rparr>"
section \<open>Auxiliary definitions for the loop proofs\<close>










section \<open>The controller: data containers\<close>

text \<open>\<open>DataToExport\<close>: a named, ordered collection of data objects. The class lives in
  \<open>pymodaq.utils.data\<close>; the controller builds it, copies it, appends to it, averages
  it and subtracts one from another.\<close>

record DataToExport =
  dte_name :: string
  dte_data :: "DataFromPlugins list"

text \<open>Modelled from the spec: the arithmetic of \<open>DataToExport.average\<close> and of the
  subtraction of two \<open>DataToExport\<close> is not in the given sources. It is taken elementwise
  on the flattened arrays and exact: arrays of equal length combine element by element, a
  length-one array is broadcast, any other pair raises \<open>ValueError\<close>. \<open>mean_update\<close> is
  the formula of the specification, \<open>newMean = ((n - 1) * oldMean + sample) / n\<close>.\<close>

definition np_add :: "ndarray \<Rightarrow> ndarray \<Rightarrow> exn + ndarray" where
  "np_add a b =
     (if length a = length b then Inr (map2 (+) a b)
      else if length a = 1 then Inr (map (\<lambda>y. hd a + y) b)
      else if length b = 1 then Inr (map (\<lambda>x. x + hd b) a)
      else Inl ValueError)"

definition np_sub :: "ndarray \<Rightarrow> ndarray \<Rightarrow> exn + ndarray" where
  "np_sub a b =
     (if length a = length b then Inr (map2 (-) a b)
      else if length a = 1 then Inr (map (\<lambda>y. hd a - y) b)
      else if length b = 1 then Inr (map (\<lambda>x. x - hd b) a)
      else Inl ValueError)"

definition mean_update :: "nat \<Rightarrow> ndarray \<Rightarrow> ndarray \<Rightarrow> exn + ndarray" where
  "mean_update n old new =
     (case np_add (map (\<lambda>x. (of_nat n - 1) * x) old) new of
        Inl e \<Rightarrow> Inl e
      | Inr s \<Rightarrow> Inr (map (\<lambda>x. x / of_nat n) s))"

text \<open>Modelled from the spec: an operation on two data objects channel by channel, and
  on two containers object by object; the result keeps the names of the left operand.
  Operands of different lengths raise \<open>TypeError\<close>.\<close>

fun zip_arrays :: "(ndarray \<Rightarrow> ndarray \<Rightarrow> exn + ndarray) \<Rightarrow> ndarray list \<Rightarrow> ndarray list
    \<Rightarrow> exn + ndarray list" where
  "zip_arrays f [] [] = Inr []"
| "zip_arrays f (x # xs) (y # ys) =
     (case f x y of
        Inl e \<Rightarrow> Inl e
      | Inr z \<Rightarrow> (case zip_arrays f xs ys of Inl e \<Rightarrow> Inl e | Inr zs \<Rightarrow> Inr (z # zs)))"
| "zip_arrays f _ _ = Inl TypeError"

fun zip_items :: "(ndarray \<Rightarrow> ndarray \<Rightarrow> exn + ndarray) \<Rightarrow> DataFromPlugins list
    \<Rightarrow> DataFromPlugins list \<Rightarrow> exn + DataFromPlugins list" where
  "zip_items f [] [] = Inr []"
| "zip_items f (x # xs) (y # ys) =
     (case zip_arrays f (data x) (data y) of
        Inl e \<Rightarrow> Inl e
      | Inr cs \<Rightarrow>
          (case zip_items f xs ys of Inl e \<Rightarrow> Inl e | Inr zs \<Rightarrow> Inr (x\<lparr>data := cs\<rparr> # zs)))"
| "zip_items f _ _ = Inl TypeError"

text \<open>Modelled from the spec: \<open>DataToExport.average(other, weight)\<close> is not in the given
  sources. The specification names the formula of the running mean,
  \<open>newMean = ((n - 1) * oldMean + sample) / n\<close>; the controller calls it as
  \<open>export.average(current_data, n)\<close>, so \<open>other\<close> carries the weight \<open>n - 1\<close>. The result
  is a new object.\<close>

definition dte_average :: "DataToExport \<Rightarrow> DataToExport \<Rightarrow> nat \<Rightarrow> exn + DataToExport" where
  "dte_average self other weight =
     (case zip_items (\<lambda>s o'. mean_update weight o' s) (dte_data self) (dte_data other) of
        Inl e \<Rightarrow> Inl e
      | Inr ds \<Rightarrow> Inr (self\<lparr>dte_data := ds\<rparr>))"

text \<open>Modelled from the spec: the subtraction of \<open>DataToExport\<close> is not in the given
  sources. It is the elementwise difference, and it does not change its right operand
  (the specification: the Background is never mutated by subtraction).\<close>

definition dte_sub :: "DataToExport \<Rightarrow> DataToExport \<Rightarrow> exn + DataToExport" where
  "dte_sub self other =
     (case zip_items np_sub (dte_data self) (dte_data other) of
        Inl e \<Rightarrow> Inl e
      | Inr ds \<Rightarrow> Inr (self\<lparr>dte_data := ds\<rparr>))"

text \<open>Modelled from the spec: \<open>DataToExport.append(data)\<close> with a \<open>DataToExport\<close>
  argument is not in the given sources; the fragment's data objects are appended, in
  order, to the open export.\<close>

definition dte_append :: "DataToExport \<Rightarrow> DataFromPlugins list \<Rightarrow> DataToExport" where
  "dte_append self ds = self\<lparr>dte_data := dte_data self @ ds\<rparr>"

section \<open>The controller: state\<close>

text \<open>The entries of the settings tree that the controller reads or writes here.\<close>

record main_settings =
  tcp_connected :: bool
  live_averaging :: bool
  N_live_averaging :: nat
  show_data_setting :: bool
  refresh_time :: nat
  stop_overshoot :: bool
  overshoot_value :: rat
  Naverage_setting :: int

text \<open>The user interface as the controller uses it: the \<open>data_ready\<close> flag, the viewer
  types it shows, and its docks (one identifier per dock). Its viewers are those it has
  handed to the controller (\<open>viewers\<close> below).\<close>

record DAQ_Viewer_UI =
  ui_data_ready :: bool
  ui_viewer_types :: "DataDim list"
  ui_viewer_docks :: "nat list"

type_synonym addr = nat

text \<open>The attributes of \<open>DAQ_Viewer\<close>. \<open>DataToExport\<close> objects are mutable and shared by
  reference (the stored export is appended to in place, the copy to plot is subtracted
  from in place), so they live in a store: \<open>heap\<close> is the list of all such objects
  created so far, an address is an index into it, and the attributes \<open>_bkg\<close>,
  \<open>_current_data\<close> and \<open>_data_to_save_export\<close> hold addresses. \<open>viewers\<close> is
  \<open>self._viewers\<close>, one identifier per display surface. The attributes whose Python name
  starts with an underscore drop it; \<open>_take_bkg\<close> is \<open>take_bkg_attr\<close> (the method is
  \<open>take_bkg\<close>).\<close>

record DAQ_Viewer =
  title :: string
  ui :: "DAQ_Viewer_UI option"
  viewers :: "nat list"
  viewer_types :: "DataDim list"
  settings :: main_settings
  grabing :: bool
  do_bkg :: bool
  take_bkg_attr :: bool
  grab_done :: bool
  start_grab_time :: rat
  received_data :: nat
  bkg :: "addr option"
  current_data :: "addr option"
  data_to_save_export :: "addr option"
  do_save_data :: bool
  save_file_pathname :: "string option"
  send_to_tcpip :: bool
  ind_continuous_grab :: nat
  heap :: "DataToExport list"

text \<open>What the controller does to the outside: signals, commands to the worker, calls
  on the user interface and on the display surfaces, and logged exceptions.\<close>

datatype viewer_event =
    Grab_done_signal DataToExport
  | Overshoot_signal bool
  | Command_hardware string "pyval list"
  | Command_tcpip_data_ready "DataFromPlugins list"
  | Update_status string
  | Custom_sig string
  | Ui_update_viewers "DataDim list"
  | Viewer_set_title nat string
  | Dock_set_title nat string
  | Viewer_show_data nat DataFromPlugins
  | Viewer_show_data_temp nat DataFromPlugins
  | Save_data "string option" DataToExport
  | Logger_exception exn
  | Raised exn

text \<open>A new object in the store (a constructor call or \<open>copy.deepcopy\<close>).\<close>

definition alloc :: "DataToExport \<Rightarrow> DAQ_Viewer \<Rightarrow> addr \<times> DAQ_Viewer" where
  "alloc d v = (length (heap v), v\<lparr>heap := heap v @ [d]\<rparr>)"

section \<open>The controller: \<open>grab_data\<close> and \<open>take_bkg\<close>\<close>

text \<open>\<open>DAQ_Viewer.grab_data(grab_state, send_to_tcpip, snap_state)\<close>; \<open>now\<close> is the value
  of \<open>time.perf_counter()\<close>. The live branch passes \<open>update_channels\<close> through
  \<open>thread_status\<close>, which only re-emits it on \<open>custom_sig\<close>.\<close>

definition viewer_grab_data :: "rat \<Rightarrow> bool \<Rightarrow> bool \<Rightarrow> bool \<Rightarrow> DAQ_Viewer
    \<Rightarrow> DAQ_Viewer \<times> viewer_event list" where
  "viewer_grab_data now grab_state' send snap_state v =
     (let v1 = v\<lparr>grabing := grab_state', send_to_tcpip := send, grab_done := False\<rparr>;
          v2 = (case ui v1 of
                  None \<Rightarrow> v1
                | Some u \<Rightarrow> v1\<lparr>ui := Some (u\<lparr>ui_data_ready := False\<rparr>)\<rparr>);
          v3 = v2\<lparr>start_grab_time := now\<rparr>
      in if snap_state then
           (v3, [Update_status (title v3 @ '': Snap''),
                 Command_hardware ''single'' [VInt (Naverage_setting (settings v3))]])
         else if \<not> grab_state' then
           (v3, [Update_status (title v3 @ '': Stop Grab''),
                 Command_hardware ''stop_grab'' []])
         else
           (v3, [Custom_sig ''update_channels'',
                 Update_status (title v3 @ '': Continuous Grab''),
                 Command_hardware ''grab'' [VInt (Naverage_setting (settings v3))]]))"


section \<open>The controller: \<open>show_data\<close> and the echoes of the viewers\<close>

text \<open>\<open>_save_export_data\<close>, the slot connected to \<open>grab_done_signal\<close> in \<open>__init__\<close>.\<close>

definition save_export_data :: "DataToExport \<Rightarrow> DAQ_Viewer \<Rightarrow> DAQ_Viewer \<times> viewer_event list" where
  "save_export_data d v =
     (if do_save_data v then
        (v\<lparr>do_save_data := False\<rparr>, [Save_data (save_file_pathname v) d])
      else (v, []))"

text \<open>\<open>self.grab_done_signal.emit(self._data_to_save_export)\<close>: the receivers see the
  object as it is at that moment; the connected slot runs at once.\<close>

definition emit_grab_done :: "addr \<Rightarrow> DAQ_Viewer \<Rightarrow> DAQ_Viewer \<times> viewer_event list" where
  "emit_grab_done a v =
     (case save_export_data (heap v ! a) v of
        (v1, ev) \<Rightarrow> (v1, Grab_done_signal (heap v ! a) # ev))"

text \<open>\<open>_process_overshoot\<close>. With the check switched on, the loop over the batch
  subscripts its first element with \<open>['data']\<close>, which raises on a \<open>DataFromPlugins\<close>
  object (\<open>getitem_str\<close>): the comparison with the threshold and the emission of
  \<open>overshoot_signal\<close> behind it are never reached. The exception leaves the method; an
  empty batch passes.\<close>

definition process_overshoot :: "DataFromPlugins list \<Rightarrow> DAQ_Viewer
    \<Rightarrow> exn option \<times> viewer_event list" where
  "process_overshoot batch v =
     (if stop_overshoot (settings v) then
        (case batch of
           [] \<Rightarrow> (None, [])
         | channels # _ \<Rightarrow> (Some (getitem_str channels ''data''), []))
      else (None, []))"

text \<open>Modelled from the spec: \<open>DAQ_Viewer_UI.update_viewers\<close> is not in the given sources
  (the specification: request surface reconfiguration). The user interface rebuilds its
  viewers and docks, one of each per requested type, and reports them at once in a
  \<open>viewers_changed\<close> command. The result is the user interface afterwards and the
  viewers it reports; identifiers are positions, they are never compared.\<close>

definition update_viewers :: "DataDim list \<Rightarrow> DAQ_Viewer_UI \<Rightarrow> DAQ_Viewer_UI \<times> nat list" where
  "update_viewers types u =
     (u\<lparr>ui_viewer_types := types, ui_viewer_docks := [0..<length types]\<rparr>,
      [0..<length types])"

text \<open>\<open>process_ui_cmds\<close> on \<open>viewers_changed\<close>: the types and the viewers of the command
  replace those of the controller.\<close>

definition viewers_changed :: "DataDim list \<Rightarrow> nat list \<Rightarrow> DAQ_Viewer \<Rightarrow> DAQ_Viewer" where
  "viewers_changed types vs v = v\<lparr>viewer_types := types, viewers := vs\<rparr>"

text \<open>\<open>_init_show_data\<close>: the overshoot check, then the viewer types are derived from
  the dimensions of the batch, and when they differ from those of the user interface it
  is told to change its viewers; its \<open>viewers_changed\<close> answer is handled before
  \<open>update_viewers\<close> returns. The first component is the exception that leaves the
  method.\<close>

definition init_show_data :: "DataFromPlugins list \<Rightarrow> DAQ_Viewer
    \<Rightarrow> exn option \<times> DAQ_Viewer \<times> viewer_event list" where
  "init_show_data batch v =
     (case process_overshoot batch v of
        (Some e, ev) \<Rightarrow> (Some e, v, ev)
      | (None, ev) \<Rightarrow>
          (let v1 = v\<lparr>viewer_types := map dim batch\<rparr>
           in case ui v1 of
                None \<Rightarrow> (None, v1, ev)
              | Some u \<Rightarrow>
                  if ui_viewer_types u \<noteq> viewer_types v1 then
                    (case update_viewers (viewer_types v1) u of
                       (u1, vs) \<Rightarrow>
                         (None, viewers_changed (ui_viewer_types u1) vs (v1\<lparr>ui := Some u1\<rparr>),
                          ev @ [Ui_update_viewers (viewer_types v1)]))
                  else (None, v1, ev)))"

text \<open>\<open>set_data_to_viewers(data)\<close> from index \<open>ind\<close> on: for each element the viewer and
  the dock of the same index get their titles and the viewer is shown the element. A
  missing viewer or dock raises \<open>IndexError\<close>; without a user interface the properties
  \<open>viewers\<close> and \<open>viewer_docks\<close> are \<open>None\<close> and subscripting raises \<open>TypeError\<close>.\<close>

fun set_data_to_viewers :: "bool \<Rightarrow> nat \<Rightarrow> DataFromPlugins list \<Rightarrow> DAQ_Viewer
    \<Rightarrow> exn option \<times> viewer_event list" where
  "set_data_to_viewers temp ind [] v = (None, [])"
| "set_data_to_viewers temp ind (d # ds) v =
     (case ui v of
        None \<Rightarrow> (Some TypeError, [])
      | Some u \<Rightarrow>
          if length (viewers v) \<le> ind then (Some IndexError, [])
          else if length (ui_viewer_docks u) \<le> ind then
            (Some IndexError, [Viewer_set_title ind (name d)])
          else
            (case set_data_to_viewers temp (Suc ind) ds v of
               (e, ev) \<Rightarrow>
                 (e, Viewer_set_title ind (name d) #
                     Dock_set_title ind (title v @ '' '' @ name d) #
                     (if temp then Viewer_show_data_temp ind d else Viewer_show_data ind d) #
                     ev)))"

text \<open>The blocks of \<open>show_data\<close>, in the order of the source.

  The live averaging block: the counter is written to the settings, a deep copy of the
  export just built becomes \<open>_current_data\<close>, the counter is incremented and, from the
  second batch on, the export is replaced by \<open>export.average(_current_data, counter)\<close>.
  The counter \<open>_ind_continuous_grab\<close> is set to 0 when live averaging is switched on.\<close>

definition live_average :: "addr \<Rightarrow> DAQ_Viewer \<Rightarrow> exn option \<times> addr \<times> DAQ_Viewer" where
  "live_average a v =
     (if live_averaging (settings v) then
        (let v1 = v\<lparr>settings := (settings v)\<lparr>N_live_averaging := ind_continuous_grab v\<rparr>\<rparr>
         in case alloc (heap v1 ! a) v1 of
              (c, v2) \<Rightarrow>
                (let v3 = v2\<lparr>current_data := Some c,
                             ind_continuous_grab := ind_continuous_grab v2 + 1\<rparr>
                 in if ind_continuous_grab v3 > 1 then
                      (case dte_average (heap v3 ! a) (heap v3 ! c) (ind_continuous_grab v3) of
                         Inl e \<Rightarrow> (Some e, a, v3)
                       | Inr m \<Rightarrow>
                           (case alloc m v3 of
                              (a', v4) \<Rightarrow> (None, a', v4\<lparr>data_to_save_export := Some a'\<rparr>)))
                    else (None, a, v3)))
      else (None, a, v))"

text \<open>The background block: a deep copy of the export becomes \<open>_bkg\<close> and the flag is
  cleared.\<close>

definition capture_bkg :: "addr \<Rightarrow> DAQ_Viewer \<Rightarrow> DAQ_Viewer" where
  "capture_bkg a v =
     (if take_bkg_attr v then
        (case alloc (heap v ! a) v of
           (b, v1) \<Rightarrow> v1\<lparr>bkg := Some b, take_bkg_attr := False\<rparr>)
      else v)"

text \<open>The refresh decision: in a live grab only when more than \<open>refresh_time\<close>
  milliseconds have passed since \<open>_start_grab_time\<close>, which is then reset; always for a
  single grab.\<close>

definition refresh_decision :: "rat \<Rightarrow> DAQ_Viewer \<Rightarrow> bool \<times> DAQ_Viewer" where
  "refresh_decision now v =
     (if grabing v then
        (let refresh = (now - start_grab_time v > of_nat (refresh_time (settings v)) / 1000)
         in (refresh, if refresh then v\<lparr>start_grab_time := now\<rparr> else v))
      else (True, v))"

text \<open>The last block: either the count of echoes is reset and a deep copy of the export,
  less the Background when \<open>do_bkg\<close> is set and a Background is stored, goes to the
  viewers; or the export is final and \<open>grab_done_signal\<close> is emitted at once. The
  in-place subtraction writes the copy.\<close>

definition display_or_finish :: "bool \<Rightarrow> addr \<Rightarrow> DAQ_Viewer \<Rightarrow> DAQ_Viewer \<times> viewer_event list" where
  "display_or_finish refresh a v =
     (if ui v \<noteq> None \<and> show_data_setting (settings v) \<and> refresh then
        (case alloc (heap v ! a) (v\<lparr>received_data := 0\<rparr>) of
           (p, v1) \<Rightarrow>
             (case (if do_bkg v1 then
                      (case bkg v1 of
                         None \<Rightarrow> Inr v1
                       | Some b \<Rightarrow>
                           (case dte_sub (heap v1 ! p) (heap v1 ! b) of
                              Inl e \<Rightarrow> Inl (e, v1)
                            | Inr r \<Rightarrow> Inr (v1\<lparr>heap := (heap v1)[p := r]\<rparr>)))
                    else Inr v1) of
                Inl (e, v2) \<Rightarrow> (v2, [Logger_exception e])
              | Inr v2 \<Rightarrow>
                  (case set_data_to_viewers False 0 (dte_data (heap v2 ! p)) v2 of
                     (None, ev) \<Rightarrow> (v2, ev)
                   | (Some e, ev) \<Rightarrow> (v2, ev @ [Logger_exception e]))))
      else emit_grab_done a (v\<lparr>grab_done := True\<rparr>))"

text \<open>\<open>show_data(data)\<close>, the slot of the worker's \<open>data_detector_sig\<close>; the whole body
  is inside one \<open>try\<close> whose handler logs. An exception of \<open>_init_show_data\<close> ends the
  call before the export is built.\<close>

definition show_data :: "rat \<Rightarrow> DataFromPlugins list \<Rightarrow> DAQ_Viewer
    \<Rightarrow> DAQ_Viewer \<times> viewer_event list" where
  "show_data now batch v =
     (let ev_tcp = (if tcp_connected (settings v) \<and> send_to_tcpip v
                    then [Command_tcpip_data_ready batch] else []);
          v1 = (case ui v of
                  None \<Rightarrow> v
                | Some u \<Rightarrow> v\<lparr>ui := Some (u\<lparr>ui_data_ready := True\<rparr>)\<rparr>)
      in case init_show_data batch v1 of
           (Some e, v2, ev_init) \<Rightarrow> (v2, ev_tcp @ ev_init @ [Logger_exception e])
         | (None, v2, ev_init) \<Rightarrow>
             (case alloc \<lparr>dte_name = title v2, dte_data = batch\<rparr> v2 of
                (a0, v3) \<Rightarrow>
                  (case live_average a0 (v3\<lparr>data_to_save_export := Some a0\<rparr>) of
                     (Some e, a, v4) \<Rightarrow> (v4, ev_tcp @ ev_init @ [Logger_exception e])
                   | (None, a, v4) \<Rightarrow>
                       (case refresh_decision now (capture_bkg a v4) of
                          (refresh, v5) \<Rightarrow>
                            (case display_or_finish refresh a v5 of
                               (v6, ev) \<Rightarrow> (v6, ev_tcp @ ev_init @ ev))))))"

text \<open>\<open>_get_data_from_viewer(data)\<close>, the slot of every viewer's
  \<open>data_to_export_signal\<close>: the fragment's objects get the controller's title as origin
  and are appended to the open export, in place; the export is emitted when the count of
  echoes equals the number of viewers. Without a user interface the property \<open>viewers\<close>
  is \<open>None\<close> and \<open>len\<close> raises.\<close>

definition get_data_from_viewer :: "DataToExport \<Rightarrow> DAQ_Viewer
    \<Rightarrow> DAQ_Viewer \<times> viewer_event list" where
  "get_data_from_viewer d v =
     (case data_to_save_export v of
        None \<Rightarrow> (v, [])
      | Some a \<Rightarrow>
          (let v1 = v\<lparr>received_data := received_data v + 1\<rparr>;
               v2 = (if length (dte_data d) \<noteq> 0 then
                       v1\<lparr>heap := (heap v1)
                          [a := dte_append (heap v1 ! a)
                                  (map (\<lambda>dat. dat\<lparr>origin := title v1\<rparr>) (dte_data d))]\<rparr>
                     else v1)
           in case ui v2 of
                None \<Rightarrow> (v2, [Raised TypeError])
              | Some u \<Rightarrow>
                  if received_data v2 = length (viewers v2)
                  then emit_grab_done a (v2\<lparr>grab_done := True\<rparr>)
                  else (v2, [])))"

text \<open>Successive echoes of the viewers.\<close>

fun echoes :: "DataToExport list \<Rightarrow> DAQ_Viewer \<Rightarrow> DAQ_Viewer \<times> viewer_event list" where
  "echoes [] v = (v, [])"
| "echoes (d # ds) v =
     (case get_data_from_viewer d v of (v1, e1) \<Rightarrow>
        (case echoes ds v1 of (v2, e2) \<Rightarrow> (v2, e1 @ e2)))"

text \<open>The exports emitted on \<open>grab_done_signal\<close>, the overshoot alerts, and the elements
  shown to the viewers, in a list of events.\<close>

fun grab_done_events :: "viewer_event list \<Rightarrow> DataToExport list" where
  "grab_done_events [] = []"
| "grab_done_events (Grab_done_signal d # es) = d # grab_done_events es"
| "grab_done_events (_ # es) = grab_done_events es"

fun overshoot_alerts :: "viewer_event list \<Rightarrow> nat" where
  "overshoot_alerts [] = 0"
| "overshoot_alerts (Overshoot_signal b # es) = Suc (overshoot_alerts es)"
| "overshoot_alerts (_ # es) = overshoot_alerts es"

fun shown :: "viewer_event list \<Rightarrow> DataFromPlugins list" where
  "shown [] = []"
| "shown (Viewer_show_data i d # es) = d # shown es"
| "shown (_ # es) = shown es"

fun saved :: "viewer_event list \<Rightarrow> DataToExport list" where
  "saved [] = []"
| "saved (Save_data path d # es) = d # saved es"
| "saved (_ # es) = saved es"

text \<open>A controller as \<open>__init__\<close> leaves it, for a given user interface and viewers, and
  the default entries of the settings.\<close>

definition default_settings :: main_settings where
  "default_settings =
     \<lparr>tcp_connected = False, live_averaging = False, N_live_averaging = 0,
      show_data_setting = True, refresh_time = 50, stop_overshoot = False,
      overshoot_value = 0, Naverage_setting = 1\<rparr>"

definition viewer_init :: "DAQ_Viewer_UI option \<Rightarrow> nat list \<Rightarrow> DAQ_Viewer" where
  "viewer_init u vs =
     \<lparr>title = ''Testing'', ui = u, viewers = vs, viewer_types = [],
      settings = default_settings, grabing = False, do_bkg = False, take_bkg_attr = False,
      grab_done = False, start_grab_time = 0, received_data = 0, bkg = None,
      current_data = None, data_to_save_export = None, do_save_data = False,
      save_file_pathname = None, send_to_tcpip = False, ind_continuous_grab = 0,
      heap = []\<rparr>"

definition ui_with :: "DataDim list \<Rightarrow> nat list \<Rightarrow> DAQ_Viewer_UI" where
  "ui_with types docks =
     \<lparr>ui_data_ready = False, ui_viewer_types = types, ui_viewer_docks = docks\<rparr>"

section \<open>Example controllers\<close>

text \<open>Controllers without a user interface, one with the overshoot check on
  (threshold 3) and one with live averaging on; a controller with a user interface and
  two viewers; and the fragment a viewer echoes.\<close>

definition overshoot_viewer :: DAQ_Viewer where
  "overshoot_viewer =
     (viewer_init None [])\<lparr>settings := default_settings\<lparr>stop_overshoot := True,
        overshoot_value := 3\<rparr>\<rparr>"

definition averaging_viewer :: DAQ_Viewer where
  "averaging_viewer =
     (viewer_init None [])\<lparr>settings := default_settings\<lparr>live_averaging := True\<rparr>\<rparr>"

definition two_viewers :: DAQ_Viewer where
  "two_viewers = viewer_init (Some (ui_with [Data0D, Data0D] [0, 1])) [0, 1]"

definition fragment :: "rat \<Rightarrow> DataToExport" where
  "fragment x = \<lparr>dte_name = ''viewer'', dte_data = sample0D [x]\<rparr>"

section \<open>Auxiliary definitions for the controller proofs\<close>

text \<open>A data object with every value replaced by 0: what subtracting an export from its
  own copy leaves.\<close>

definition zeroed :: "DataFromPlugins \<Rightarrow> DataFromPlugins" where
  "zeroed d = d\<lparr>data := map (map (\<lambda>x. 0)) (data d)\<rparr>"

text \<open>The attributes that \<open>show_data\<close> and the echoes never write, and the bookkeeping
  that the first blocks of \<open>show_data\<close> leave alone.\<close>

definition control :: "DAQ_Viewer \<Rightarrow>
    string \<times> nat list \<times> bool \<times> bool \<times> string option \<times> bool \<times> nat \<times> nat list option" where
  "control v =
     (title v, viewers v, grabing v, do_bkg v, save_file_pathname v,
      show_data_setting (settings v), refresh_time (settings v),
      map_option ui_viewer_docks (ui v))"

definition cycle :: "DAQ_Viewer \<Rightarrow> rat \<times> nat \<times> bool \<times> bool \<times> bool \<times> addr option" where
  "cycle v =
     (start_grab_time v, received_data v, grab_done v, do_save_data v, take_bkg_attr v, bkg v)"

text \<open>The state and the export address on which \<open>show_data\<close> enters its last block,
  built from its earlier blocks when the overshoot check lets the batch pass: the flag of
  the user interface and the viewers arranged for the batch (\<open>arranged\<close>, with the request
  sent to the user interface in \<open>reconfiguration\<close>), the export of the raw batch in the
  store, the live averaging, the Background, the refresh decision; and the events emitted
  before the last block.\<close>

definition flag_ui :: "DAQ_Viewer \<Rightarrow> DAQ_Viewer" where
  "flag_ui v = (case ui v of None \<Rightarrow> v | Some u \<Rightarrow> v\<lparr>ui := Some (u\<lparr>ui_data_ready := True\<rparr>)\<rparr>)"

definition arranged :: "DataFromPlugins list \<Rightarrow> DAQ_Viewer \<Rightarrow> DAQ_Viewer" where
  "arranged batch v =
     (case ui v of
        None \<Rightarrow> v\<lparr>viewer_types := map dim batch\<rparr>
      | Some u \<Rightarrow>
          if ui_viewer_types u \<noteq> map dim batch then
            v\<lparr>ui := Some (u\<lparr>ui_data_ready := True, ui_viewer_types := map dim batch,
                             ui_viewer_docks := [0..<length batch]\<rparr>),
              viewer_types := map dim batch, viewers := [0..<length batch]\<rparr>
          else v\<lparr>ui := Some (u\<lparr>ui_data_ready := True\<rparr>), viewer_types := map dim batch\<rparr>)"

definition reconfiguration :: "DataFromPlugins list \<Rightarrow> DAQ_Viewer \<Rightarrow> viewer_event list" where
  "reconfiguration batch v =
     (case ui v of
        None \<Rightarrow> []
      | Some u \<Rightarrow>
          if ui_viewer_types u \<noteq> map dim batch then [Ui_update_viewers (map dim batch)]
          else [])"

definition raw_export :: "DataFromPlugins list \<Rightarrow> DAQ_Viewer \<Rightarrow> DataToExport" where
  "raw_export batch v = \<lparr>dte_name = title v, dte_data = batch\<rparr>"

definition stored :: "DataFromPlugins list \<Rightarrow> DAQ_Viewer \<Rightarrow> DAQ_Viewer" where
  "stored batch v =
     (arranged batch v)\<lparr>heap := heap v @ [raw_export batch v],
        data_to_save_export := Some (length (heap v))\<rparr>"

definition pre_display :: "rat \<Rightarrow> DataFromPlugins list \<Rightarrow> DAQ_Viewer \<Rightarrow> addr \<times> bool \<times> DAQ_Viewer" where
  "pre_display now batch v =
     (case live_average (length (heap v)) (stored batch v) of
        (e, a, v4) \<Rightarrow>
          (a, fst (refresh_decision now (capture_bkg a v4)),
              snd (refresh_decision now (capture_bkg a v4))))"

definition tcp_events :: "DataFromPlugins list \<Rightarrow> DAQ_Viewer \<Rightarrow> viewer_event list" where
  "tcp_events batch v =
     (if tcp_connected (settings v) \<and> send_to_tcpip v
      then [Command_tcpip_data_ready batch] else [])"

definition head_events :: "DataFromPlugins list \<Rightarrow> DAQ_Viewer \<Rightarrow> viewer_event list" where
  "head_events batch v = tcp_events batch v @ reconfiguration batch v"

text \<open>The data objects of a viewer's fragment, tagged with the origin; and the export
  that a run of echoes completes, if it reaches the number of viewers.\<close>

definition fragment_items :: "string \<Rightarrow> DataToExport \<Rightarrow> DataFromPlugins list" where
  "fragment_items t d = map (\<lambda>dat. dat\<lparr>origin := t\<rparr>) (dte_data d)"

definition completed :: "addr \<Rightarrow> DataToExport list \<Rightarrow> DAQ_Viewer \<Rightarrow> DataToExport list" where
  "completed a es v =
     (if received_data v < length (viewers v) \<and>
         length (viewers v) \<le> received_data v + length es
      then [dte_append (heap v ! a)
              (concat (map (fragment_items (title v))
                 (take (length (viewers v) - received_data v) es)))]
      else [])"

text \<open>A controller with a user interface and one viewer, and one with a user interface
  and no viewer.\<close>

definition one_viewer :: DAQ_Viewer where
  "one_viewer = viewer_init (Some (ui_with [Data0D] [0])) [0]"

definition no_viewer :: DAQ_Viewer where
  "no_viewer = viewer_init (Some (ui_with [] [])) []"

text \<open>The one-viewer controller with background subtraction on and a stored Background
  \<open>[1, 2]\<close>.\<close>

definition with_background :: DAQ_Viewer where
  "with_background =
     one_viewer\<lparr>do_bkg := True, bkg := Some 0,
        heap := [\<lparr>dte_name = ''Testing'', dte_data = sample0D [1, 2]\<rparr>]\<rparr>"

section \<open>Software averaging\<close>

lemma emitted_append: "emitted (a @ b) = emitted a @ emitted b"
  by (induction a rule: emitted.induct) simp_all

lemma callbacks_snoc:
  "callbacks (bs @ [b]) w =
     (case callbacks bs w of (w1, e1) \<Rightarrow>
        (case data_ready b w1 of (w2, e2) \<Rightarrow> (w2, e1 @ e2)))"
  by (induction bs arbitrary: w) (simp_all add: split_beta)

lemma fst_callbacks_snoc:
  "fst (callbacks (bs @ [b]) w) = fst (data_ready b (fst (callbacks bs w)))"
  by (simp add: callbacks_snoc split_beta)

lemma snd_callbacks_snoc:
  "snd (callbacks (bs @ [b]) w) =
     snd (callbacks bs w) @ snd (data_ready b (fst (callbacks bs w)))"
  by (simp add: callbacks_snoc split_beta)

text \<open>The first sample of a cycle is stored; every later non-empty sample is logged
  with \<open>IndexError\<close> and leaves the stored batch as it is.\<close>

lemma data_ready_first:
  assumes "\<not> hardware_averaging w" "ind_average w = 0" "Naverage w \<noteq> Some 1"
  shows "emitted (snd (data_ready y w)) = []"
    and "ind_average (fst (data_ready y w)) = 1"
    and "datas (fst (data_ready y w)) = Some y"
    and "\<not> hardware_averaging (fst (data_ready y w))"
    and "Naverage (fst (data_ready y w)) = Naverage w"
  using assms by (auto simp: data_ready_def Let_def split: option.splits)

lemma data_ready_first_emit:
  assumes "\<not> hardware_averaging w" "ind_average w = 0" "Naverage w = Some 1"
  shows "emitted (snd (data_ready y w)) = [y]"
    and "ind_average (fst (data_ready y w)) = 0"
    and "datas (fst (data_ready y w)) = Some y"
    and "average_done (fst (data_ready y w))"
  using assms by (auto simp: data_ready_def Let_def split: option.splits)

lemma data_ready_next:
  assumes "\<not> hardware_averaging w" "ind_average w = k" "0 < k" "datas w = Some d"
    and "y \<noteq> []" "Naverage w \<noteq> Some (int (Suc k))"
  shows "emitted (snd (data_ready y w)) = []"
    and "ind_average (fst (data_ready y w)) = Suc k"
    and "datas (fst (data_ready y w)) = Some d"
    and "\<not> hardware_averaging (fst (data_ready y w))"
    and "Naverage (fst (data_ready y w)) = Naverage w"
  using assms
  by (auto simp: data_ready_def Let_def fold_sample_def getitem_str_def
      split: option.splits list.splits)

lemma data_ready_next_emit:
  assumes "\<not> hardware_averaging w" "ind_average w = k" "0 < k" "datas w = Some d"
    and "y \<noteq> []" "Naverage w = Some (int (Suc k))"
  shows "emitted (snd (data_ready y w)) = [d]"
    and "ind_average (fst (data_ready y w)) = 0"
    and "datas (fst (data_ready y w)) = Some d"
    and "average_done (fst (data_ready y w))"
  using assms
  by (auto simp: data_ready_def Let_def fold_sample_def getitem_str_def
      split: option.splits list.splits)

lemma averaging_invariant:
  assumes "\<not> hardware_averaging w" "ind_average w = 0" "Naverage w = Some (int N)"
  shows "xs \<noteq> [] \<Longrightarrow> length xs < N \<Longrightarrow> \<forall>x\<in>set xs. x \<noteq> [] \<Longrightarrow>
     emitted (snd (callbacks xs w)) = [] \<and>
     ind_average (fst (callbacks xs w)) = length xs \<and>
     datas (fst (callbacks xs w)) = Some (hd xs) \<and>
     \<not> hardware_averaging (fst (callbacks xs w)) \<and>
     Naverage (fst (callbacks xs w)) = Some (int N)"
proof (induction xs rule: rev_induct)
  case Nil
  then show ?case by simp
next
  case (snoc y ys)
  show ?case
  proof (cases "ys = []")
    case True
    have n1: "Naverage w \<noteq> Some 1" using assms(3) snoc.prems(2) True by simp
    show ?thesis
      using data_ready_first[OF assms(1,2) n1, of y] assms(3) True
      by (simp add: split_beta)
  next
    case False
    let ?w = "fst (callbacks ys w)"
    have len: "length ys < N" using snoc.prems(2) by simp
    have ne: "\<forall>x\<in>set ys. x \<noteq> []" using snoc.prems(3) by simp
    have y: "y \<noteq> []" using snoc.prems(3) by simp
    note ih = snoc.IH[OF False len ne]
    have k: "0 < length ys" using False by simp
    have nn: "Naverage ?w \<noteq> Some (int (Suc (length ys)))"
      using ih snoc.prems(2) by simp
    have a: "\<not> hardware_averaging ?w" and b: "ind_average ?w = length ys"
      and c: "datas ?w = Some (hd ys)"
      using ih by simp_all
    note dr = data_ready_next[OF a b k c y nn]
    show ?thesis
      using dr ih False
      by (simp add: fst_callbacks_snoc snd_callbacks_snoc emitted_append)
  qed
qed

text \<open>
  Claim C1. With software averaging and \<open>Naverage = N\<close>, the worker emits exactly one
  batch, on the \<open>N\<close>-th completion callback, and the counter is back at 0 afterwards; the
  claim says that the batch is the elementwise arithmetic mean of the \<open>N\<close> samples. On
  samples that hold \<open>DataFromPlugins\<close> objects the program does not get that far: folding the
  second and every later sample into the stored one stops at the subscript \<open>['data']\<close>,
  which raises \<open>IndexError\<close>; the exception is logged, and the batch emitted on the
  \<open>N\<close>-th callback is the first sample, unchanged.
\<close>

theorem software_average_emits_first_sample:
  assumes "\<not> hardware_averaging w" and "ind_average w = 0" and "xs \<noteq> []"
    and "Naverage w = Some (int (length xs))"
    and "\<forall>x\<in>set xs. x \<noteq> []"
  shows "emitted (snd (callbacks (butlast xs) w)) = [] \<and>
     emitted (snd (callbacks xs w)) = [hd xs] \<and>
     ind_average (fst (callbacks xs w)) = 0 \<and>
     average_done (fst (callbacks xs w))"
proof -
  obtain ys y where xs: "xs = ys @ [y]" using assms(3) by (meson rev_exhaust)
  have N: "Naverage w = Some (int (Suc (length ys)))" using assms(4) xs by simp
  show ?thesis
  proof (cases "ys = []")
    case True
    have N1: "Naverage w = Some 1" using N True by simp
    show ?thesis
      using data_ready_first_emit[OF assms(1,2) N1, of y] True xs
      by (simp add: split_beta)
  next
    case False
    let ?w = "fst (callbacks ys w)"
    have ne: "\<forall>x\<in>set ys. x \<noteq> []" using assms(5) xs by simp
    have y: "y \<noteq> []" using assms(5) xs by simp
    have len: "length ys < Suc (length ys)" by simp
    note inv = averaging_invariant[OF assms(1,2) N False len ne]
    have ih: "emitted (snd (callbacks ys w)) = []" "ind_average ?w = length ys"
      "datas ?w = Some (hd ys)"
      "\<not> hardware_averaging ?w" "Naverage ?w = Some (int (Suc (length ys)))"
      using inv by blast+
    have k: "0 < length ys" using False by simp
    note dr = data_ready_next_emit[OF ih(4) ih(2) k ih(3) y ih(5)]
    show ?thesis
      unfolding xs using dr ih(1) False
      by (simp add: fst_callbacks_snoc snd_callbacks_snoc emitted_append)
  qed
qed

text \<open>Three samples \<open>[1,1,1]\<close>, \<open>[2,2,2]\<close>, \<open>[3,3,3]\<close> with \<open>Naverage = 3\<close>: the mean is
  \<open>[2,2,2]\<close>, the batch emitted is \<open>[1,1,1]\<close>.\<close>

lemma scenario_mean:
  "arithmetic_mean [sample0D [1, 1, 1], sample0D [2, 2, 2], sample0D [3, 3, 3]] = [[[2], [2], [2]]]"
  by code_simp

theorem software_average_emits_first_sample_witness:
  "emitted (snd (callbacks [sample0D [1, 1, 1], sample0D [2, 2, 2], sample0D [3, 3, 3]]
            ((worker_init 0)\<lparr>Naverage := Some 3\<rparr>))) = [sample0D [1, 1, 1]] \<and>
   map data (sample0D [1, 1, 1]) = [[[1], [1], [1]]] \<and>
   arithmetic_mean [sample0D [1, 1, 1], sample0D [2, 2, 2], sample0D [3, 3, 3]]
     = [[[2], [2], [2]]]"
proof -
  let ?w = "(worker_init 0)\<lparr>Naverage := Some 3\<rparr>"
  let ?xs = "[sample0D [1, 1, 1], sample0D [2, 2, 2], sample0D [3, 3, 3]]"
  have h1: "\<not> hardware_averaging ?w" and h2: "ind_average ?w = 0"
    by (simp_all add: worker_init_def)
  have h3: "?xs \<noteq> []" by simp
  have h4: "Naverage ?w = Some (int (length ?xs))" by simp
  have h5: "\<forall>x\<in>set ?xs. x \<noteq> []" by (simp add: sample0D_def)
  from software_average_emits_first_sample[OF h1 h2 h3 h4 h5]
  have e: "emitted (snd (callbacks ?xs ?w)) = [hd ?xs]" by blast
  have d: "map data (sample0D [1, 1, 1]) = [[[1], [1], [1]]]" by (simp add: sample0D_def)
  show ?thesis using e d scenario_mean by simp
qed
section \<open>The grab loop\<close>


















lemma data_ready_grab_state: "grab_state (fst (data_ready b w)) = grab_state w"
  by (auto simp: data_ready_def Let_def split: option.splits prod.splits)

lemma queue_command_grab_state:
  "\<not> grab_state w \<Longrightarrow> \<not> grab_state (fst (queue_command c w))"
  by (cases c) (auto split: option.splits)

lemma process_events_grab_state:
  "\<not> grab_state w \<Longrightarrow> \<not> grab_state (fst (process_events es w))"
proof (induction es arbitrary: w)
  case Nil
  then show ?case by simp
next
  case (Cons e es)
  show ?case
  proof (cases e)
    case (Ev_data_ready b)
    then show ?thesis
      using Cons.IH[of "fst (data_ready b w)"] Cons.prems
      by (simp add: split_beta data_ready_grab_state)
  next
    case (Ev_command c)
    then show ?thesis
      using Cons.IH[of "fst (queue_command c w)"] Cons.IH[of "w\<lparr>grab_state := False\<rparr>"]
        Cons.prems queue_command_grab_state[of w c]
      by (cases c) (auto simp: split_beta split: option.splits)
  qed
qed

lemma process_events_stop:
  "Recv (Ev_command Stop_grab) \<in> set (snd (process_events es w))
     \<Longrightarrow> \<not> grab_state (fst (process_events es w))"
proof (induction es arbitrary: w)
  case Nil
  then show ?case by simp
next
  case (Cons e es)
  show ?case
  proof (cases e)
    case (Ev_data_ready b)
    then show ?thesis
      using Cons.IH[of "fst (data_ready b w)"] Cons.prems
      by (auto simp: split_beta)
  next
    case (Ev_command c)
    then show ?thesis
      using Cons.IH[of "fst (queue_command c w)"] Cons.IH[of "w\<lparr>grab_state := False\<rparr>"]
        Cons.prems process_events_grab_state[of "w\<lparr>grab_state := False\<rparr>" es]
      by (cases c) (auto simp: split_beta split: option.splits)
  qed
qed

lemma process_events_received:
  "Ev_command Stop_grab \<in> set es \<Longrightarrow>
     Recv (Ev_command Stop_grab) \<in> set (snd (process_events es w))"
proof (induction es arbitrary: w)
  case Nil
  then show ?case by simp
next
  case (Cons e es)
  show ?case
  proof (cases e)
    case (Ev_data_ready b)
    then show ?thesis
      using Cons.IH[of "fst (data_ready b w)"] Cons.prems
      by (auto simp: split_beta)
  next
    case (Ev_command c)
    then show ?thesis
      using Cons.IH[of "fst (queue_command c w)"] Cons.IH[of "w\<lparr>grab_state := False\<rparr>"]
        Cons.prems
      by (cases c) (auto simp: split_beta split: option.splits)
  qed
qed


lemma loop_exit_stopped: "\<not> grab_state w \<Longrightarrow> loop_exit lma w"
  by (simp add: loop_exit_def)


lemma grab_loop_stop_iteration:
  assumes "Ev_command Stop_grab \<in> set (pending it)"
    and "waiting_for_data w \<or> grab_error it = None"
  shows "grab_loop N live wt lma (it # rest) w = grab_loop N live wt lma (it # []) w \<and>
     snd (snd (grab_loop N live wt lma (it # rest) w))"
proof -
  let ?sync = "process_events (map Ev_data_ready (sync_data it)) (w\<lparr>waiting_for_data := True\<rparr>)"
  define w1 where "w1 = (if \<not> waiting_for_data w then fst ?sync else w)"
  define tr1 where "tr1 =
    (if \<not> waiting_for_data w then Emit (Detector_grab_data N live wt) # snd ?sync else [])"
  have head: "(if \<not> waiting_for_data w then
           (case ?sync of
              (w1, tr) \<Rightarrow> (w1, Emit (Detector_grab_data N live wt) # tr, grab_error it))
         else (w, [], None)) = (w1, tr1, None)"
    using assms(2) by (auto simp: w1_def tr1_def split_beta)
  let ?pe = "process_events (pending it) w1"
  have "\<not> grab_state (fst ?pe)"
    using process_events_stop[OF process_events_received[OF assms(1)]] .
  then have ex: "loop_exit lma (fst ?pe)" by (rule loop_exit_stopped)
  have r: "grab_loop N live wt lma (it # its) w = (fst ?pe, tr1 @ snd ?pe, True)" for its
    using head ex by (simp add: split_beta)
  show ?thesis unfolding r by simp
qed






section \<open>Acquisitions started inside a running loop\<close>







section \<open>Initialization failures\<close>

text \<open>
  Claim C9. When the plugin's constructor or the plugin's own initializer raises,
  \<open>ini_detector\<close> returns (no exception leaves it) and the status it returns has
  \<open>initialized = False\<close>. The claim adds a null controller handle. That is what the
  status holds when the initializer raised (the inner handler sets
  \<open>status.controller = None\<close>). When the constructor raised, the inner \<open>try\<close> is never
  entered and the outer handler returns the status as it was built: it has no
  \<open>controller\<close> entry at all.
\<close>

theorem ini_detector_failure_status:
  "(construct cls = Some e \<longrightarrow>
      fst (ini_detector (Inr cls) w) = Inr initial_status \<and>
      initial_status ''initialized'' = Some (VBool False) \<and>
      initial_status ''controller'' = None) \<and>
   (construct cls = None \<and> plugin_ini_detector cls = Inl e \<longrightarrow>
      (\<exists>status. fst (ini_detector (Inr cls) w) = Inr status \<and>
         status ''initialized'' = Some (VBool False) \<and>
         status ''controller'' = Some VNone))"
proof (intro conjI impI)
  assume "construct cls = Some e"
  then show "fst (ini_detector (Inr cls) w) = Inr initial_status"
    by (simp add: ini_detector_def)
next
  show "initial_status ''initialized'' = Some (VBool False)"
    by (simp add: initial_status_def)
next
  show "initial_status ''controller'' = None"
    by (simp add: initial_status_def)
next
  assume a: "construct cls = None \<and> plugin_ini_detector cls = Inl e"
  have "\<exists>e'. init_plugin cls initial_status =
      (Infos_tuple [VStr (str_exn e'), VBool False], initial_status(''controller'' \<mapsto> VNone), [Logged e'])"
    using a by (cases "connect_signals cls") (simp_all add: init_plugin_def Let_def)
  then obtain e' where ip: "init_plugin cls initial_status =
      (Infos_tuple [VStr (str_exn e'), VBool False], initial_status(''controller'' \<mapsto> VNone), [Logged e'])"
    by blast
  show "\<exists>status. fst (ini_detector (Inr cls) w) = Inr status \<and>
         status ''initialized'' = Some (VBool False) \<and>
         status ''controller'' = Some VNone"
    using a ip
    by (auto simp: ini_detector_def Let_def merge_infos_def announce_axis_def initial_status_def
        split: sum.splits)
qed

text \<open>The two failures on the example plugins.\<close>

theorem ini_detector_failure_status_witness:
  "fst (ini_detector (Inr failing_constructor) (worker_init 0)) = Inr initial_status \<and>
   initial_status ''initialized'' = Some (VBool False) \<and>
   initial_status ''controller'' = None \<and>
   (\<exists>status. fst (ini_detector (Inr failing_plugin) (worker_init 0)) = Inr status \<and>
      status ''initialized'' = Some (VBool False) \<and> status ''controller'' = Some VNone)"
proof -
  have c: "construct failing_constructor = Some (DriverError ''no driver'')"
    by (simp add: failing_constructor_def)
  have i: "construct failing_plugin = None \<and>
      plugin_ini_detector failing_plugin = Inl (DriverError ''no device'')"
    by (simp add: failing_plugin_def)
  from ini_detector_failure_status[of failing_constructor "DriverError ''no driver''"
      "worker_init 0"] c
  have 1: "fst (ini_detector (Inr failing_constructor) (worker_init 0)) = Inr initial_status \<and>
      initial_status ''initialized'' = Some (VBool False) \<and>
      initial_status ''controller'' = None" by blast
  from ini_detector_failure_status[of failing_plugin "DriverError ''no device''"
      "worker_init 0"] i
  have 2: "\<exists>status. fst (ini_detector (Inr failing_plugin) (worker_init 0)) = Inr status \<and>
      status ''initialized'' = Some (VBool False) \<and> status ''controller'' = Some VNone"
    by blast
  from 1 2 show ?thesis by blast
qed
section \<open>The controller: overshoot, bookkeeping, live averaging\<close>

lemma overshoot_alerts_append:
  "overshoot_alerts (a @ b) = overshoot_alerts a + overshoot_alerts b"
  by (induction a rule: overshoot_alerts.induct) simp_all

lemma grab_done_events_append:
  "grab_done_events (a @ b) = grab_done_events a @ grab_done_events b"
  by (induction a rule: grab_done_events.induct) simp_all

lemma shown_append: "shown (a @ b) = shown a @ shown b"
  by (induction a rule: shown.induct) simp_all

lemma saved_append: "saved (a @ b) = saved a @ saved b"
  by (induction a rule: saved.induct) simp_all

lemma tcp_events_quiet:
  "grab_done_events (tcp_events batch v) = []"
  "shown (tcp_events batch v) = []"
  "saved (tcp_events batch v) = []"
  "overshoot_alerts (tcp_events batch v) = 0"
  by (simp_all add: tcp_events_def)

text \<open>With the overshoot check on, a batch that is not empty ends \<open>show_data\<close> in its
  handler: only the flag of the user interface is set, and the only events are the
  message to the TCP/IP client, if one is connected, and the logged \<open>IndexError\<close>.\<close>

lemma init_show_data_raises:
  "stop_overshoot (settings v) \<Longrightarrow> batch \<noteq> [] \<Longrightarrow>
   init_show_data batch (flag_ui v) = (Some IndexError, flag_ui v, [])"
  by (cases batch)
     (simp_all add: init_show_data_def process_overshoot_def getitem_str_def flag_ui_def
       split: option.splits)

lemma show_data_abort:
  assumes "stop_overshoot (settings v)" and "batch \<noteq> []"
  shows "show_data now batch v =
     (flag_ui v, tcp_events batch v @ [Logger_exception IndexError])"
proof -
  have "show_data now batch v =
      (case init_show_data batch (flag_ui v) of
         (Some e, v2, ev_init) \<Rightarrow> (v2, tcp_events batch v @ ev_init @ [Logger_exception e])
       | (None, v2, ev_init) \<Rightarrow>
           (case alloc \<lparr>dte_name = title v2, dte_data = batch\<rparr> v2 of
              (a0, v3) \<Rightarrow>
                (case live_average a0 (v3\<lparr>data_to_save_export := Some a0\<rparr>) of
                   (Some e, a, v4) \<Rightarrow>
                     (v4, tcp_events batch v @ ev_init @ [Logger_exception e])
                 | (None, a, v4) \<Rightarrow>
                     (case refresh_decision now (capture_bkg a v4) of
                        (refresh, v5) \<Rightarrow>
                          (case display_or_finish refresh a v5 of
                             (v6, ev) \<Rightarrow> (v6, tcp_events batch v @ ev_init @ ev))))))"
    unfolding show_data_def flag_ui_def tcp_events_def Let_def by (rule refl)
  then show ?thesis using init_show_data_raises[OF assms] by simp
qed

lemma flag_ui_frame:
  "heap (flag_ui v) = heap v"
  "data_to_save_export (flag_ui v) = data_to_save_export v"
  "bkg (flag_ui v) = bkg v"
  "take_bkg_attr (flag_ui v) = take_bkg_attr v"
  "grab_done (flag_ui v) = grab_done v"
  "viewers (flag_ui v) = viewers v"
  by (simp_all add: flag_ui_def split: option.splits)

text \<open>
  Claim C5. With overshoot checking enabled, a batch in which some 0-dimensional value is
  at or above the threshold should fire exactly one overshoot alert. The program fires
  none: for every batch that is not empty, whatever its values, the check stops at the
  subscript \<open>channels['data']\<close>, which raises \<open>IndexError\<close> on a \<open>DataFromPlugins\<close>
  object. The exception ends \<open>show_data\<close> in its handler: no alert, no export stored or
  emitted, nothing shown; the state is the one before the call but for the flag of the
  user interface.
\<close>

theorem overshoot_check_aborts_show_data:
  assumes "stop_overshoot (settings v)" and "batch \<noteq> []"
  shows "overshoot_alerts (snd (show_data now batch v)) = 0 \<and>
     grab_done_events (snd (show_data now batch v)) = [] \<and>
     shown (snd (show_data now batch v)) = [] \<and>
     snd (show_data now batch v) = tcp_events batch v @ [Logger_exception IndexError] \<and>
     fst (show_data now batch v) = flag_ui v"
  unfolding show_data_abort[OF assms]
  by (simp add: overshoot_alerts_append grab_done_events_append shown_append tcp_events_quiet)

text \<open>The threshold is 3 and the batch holds the value 5.\<close>

theorem overshoot_check_aborts_show_data_witness:
  "overshoot_value (settings overshoot_viewer) = 3 \<and>
   map data (sample0D [5]) = [[[5]]] \<and>
   overshoot_alerts (snd (show_data 0 (sample0D [5]) overshoot_viewer)) = 0 \<and>
   show_data 0 (sample0D [5]) overshoot_viewer =
     (overshoot_viewer, [Logger_exception IndexError])"
proof -
  have h1: "stop_overshoot (settings overshoot_viewer)"
    by (simp add: overshoot_viewer_def)
  have h2: "sample0D [5] \<noteq> []" by (simp add: sample0D_def)
  have f: "flag_ui overshoot_viewer = overshoot_viewer"
    "tcp_events (sample0D [5]) overshoot_viewer = []"
    "overshoot_value (settings overshoot_viewer) = 3"
    by (simp_all add: flag_ui_def tcp_events_def overshoot_viewer_def viewer_init_def
        default_settings_def)
  have d: "map data (sample0D [5]) = [[[5]]]" by (simp add: sample0D_def)
  from overshoot_check_aborts_show_data[OF h1 h2, of 0]
  have "overshoot_alerts (snd (show_data 0 (sample0D [5]) overshoot_viewer)) = 0"
    and "snd (show_data 0 (sample0D [5]) overshoot_viewer) = [Logger_exception IndexError]"
    and "fst (show_data 0 (sample0D [5]) overshoot_viewer) = overshoot_viewer"
    using f by simp_all
  then show ?thesis using f(3) d by (simp add: prod_eq_iff)
qed

lemma viewer_grab_data_received:
  "received_data (fst (viewer_grab_data now g s snap v)) = received_data v"
  by (auto simp: viewer_grab_data_def Let_def split: option.splits)

text \<open>
  C8 (amended). Every call of the controller's \<open>grab_data\<close>, in any mode, clears the
  completion flag, sets the start timestamp to the current time and records the grab
  state; it leaves the count of received fragments as it is (\<open>show_data\<close> resets that
  count when it hands a batch to the viewers).
\<close>

theorem viewer_grab_data_bookkeeping:
  "grab_done (fst (viewer_grab_data now g s snap v)) = False \<and>
   start_grab_time (fst (viewer_grab_data now g s snap v)) = now \<and>
   grabing (fst (viewer_grab_data now g s snap v)) = g \<and>
   received_data (fst (viewer_grab_data now g s snap v)) = received_data v"
  by (auto simp: viewer_grab_data_def Let_def split: option.splits)

text \<open>One cycle with two viewers: after both echoes the count is 2.\<close>

lemma two_viewers_cycle:
  "received_data (fst (echoes [fragment 1, fragment 2]
      (fst (show_data 1 (sample0D [1] @ sample0D [2]) two_viewers)))) = 2"
  by (simp add: show_data_def init_show_data_def process_overshoot_def two_viewers_def
      viewer_init_def ui_with_def default_settings_def sample0D_def alloc_def
      live_average_def capture_bkg_def refresh_decision_def display_or_finish_def
      get_data_from_viewer_def emit_grab_done_def save_export_data_def fragment_def
      dte_append_def Let_def)

text \<open>C8 as stated fails: a snap requested after that cycle leaves the count at 2.\<close>

theorem grab_data_keeps_received_count_counterexample:
  "received_data (fst (viewer_grab_data 2 False False True
     (fst (echoes [fragment 1, fragment 2]
        (fst (show_data 1 (sample0D [1] @ sample0D [2]) two_viewers)))))) \<noteq> 0"
  by (simp only: viewer_grab_data_received two_viewers_cycle)

text \<open>
  C6. With live averaging on and the counter at 0, the batches \<open>[1]\<close> and then \<open>[3]\<close>:
  after the second call the stored export, which is also the one emitted, holds \<open>[3]\<close>
  and not the mean \<open>[2]\<close>, while the counter is 2. \<open>_current_data\<close> is overwritten
  with a copy of the new export before the average is taken, so every batch is averaged
  with itself.
\<close>

theorem live_averaging_keeps_last_batch:
  "map_option (\<lambda>a. dte_data (heap (fst (show_data 2 (sample0D [3])
        (fst (show_data 1 (sample0D [1]) averaging_viewer)))) ! a))
     (data_to_save_export (fst (show_data 2 (sample0D [3])
        (fst (show_data 1 (sample0D [1]) averaging_viewer))))) = Some (sample0D [3]) \<and>
   grab_done_events (snd (show_data 2 (sample0D [3])
        (fst (show_data 1 (sample0D [1]) averaging_viewer)))) =
     [\<lparr>dte_name = ''Testing'', dte_data = sample0D [3]\<rparr>] \<and>
   ind_continuous_grab (fst (show_data 2 (sample0D [3])
        (fst (show_data 1 (sample0D [1]) averaging_viewer)))) = 2"
  by (simp add: show_data_def init_show_data_def process_overshoot_def averaging_viewer_def
      viewer_init_def default_settings_def sample0D_def alloc_def
      live_average_def capture_bkg_def refresh_decision_def display_or_finish_def
      emit_grab_done_def save_export_data_def dte_average_def mean_update_def np_add_def Let_def)


section \<open>The controller: the pipeline of \<open>show_data\<close>\<close>

lemma zip_arrays_self:
  "(\<And>x. f x x = Inr (g x)) \<Longrightarrow> zip_arrays f xs xs = Inr (map g xs)"
  by (induction xs) simp_all

lemma zip_items_self:
  "(\<And>x. f x x = Inr (g x)) \<Longrightarrow>
   zip_items f ds ds = Inr (map (\<lambda>d. d\<lparr>data := map g (data d)\<rparr>) ds)"
  by (induction ds) (simp_all add: zip_arrays_self)

lemma mean_update_self: "0 < n \<Longrightarrow> mean_update n x x = Inr x"
proof -
  assume n: "0 < n"
  have "map2 (+) (map ((*) (of_nat n - 1)) x) x = map (\<lambda>a. of_nat n * a) x"
    by (induction x) (simp_all add: algebra_simps)
  then show ?thesis using n by (simp add: mean_update_def np_add_def o_def)
qed

lemma dte_average_self: "0 < n \<Longrightarrow> dte_average E E n = Inr E"
proof -
  assume n: "0 < n"
  have "zip_items (\<lambda>s o'. mean_update n o' s) (dte_data E) (dte_data E) =
      Inr (map (\<lambda>d. d\<lparr>data := map (\<lambda>x. x) (data d)\<rparr>) (dte_data E))"
    by (rule zip_items_self) (simp add: mean_update_self n)
  then show ?thesis by (simp add: dte_average_def)
qed

lemma np_sub_self: "np_sub x x = Inr (map (\<lambda>x. 0) x)"
proof -
  have "map2 (-) x x = map (\<lambda>x. 0) x" by (induction x) simp_all
  then show ?thesis by (simp add: np_sub_def)
qed

lemma dte_sub_self: "dte_sub E E = Inr (E\<lparr>dte_data := map zeroed (dte_data E)\<rparr>)"
proof -
  have "zip_items np_sub (dte_data E) (dte_data E) =
      Inr (map (\<lambda>d. d\<lparr>data := map (map (\<lambda>x. 0)) (data d)\<rparr>) (dte_data E))"
    by (rule zip_items_self) (rule np_sub_self)
  then show ?thesis by (simp add: dte_sub_def zeroed_def)
qed

lemma zip_arrays_length: "zip_arrays f xs ys = Inr zs \<Longrightarrow> length zs = length xs"
  by (induction f xs ys arbitrary: zs rule: zip_arrays.induct) (auto split: sum.splits)

lemma zip_items_length: "zip_items f xs ys = Inr zs \<Longrightarrow> length zs = length xs"
  by (induction f xs ys arbitrary: zs rule: zip_items.induct) (auto split: sum.splits)

lemma dte_sub_length: "dte_sub X Y = Inr P \<Longrightarrow> length (dte_data P) = length (dte_data X)"
  by (auto simp: dte_sub_def zip_items_length split: sum.splits)

lemma set_data_to_viewers_ok:
  "ui v = Some u \<Longrightarrow> ind + length ds \<le> length (viewers v) \<Longrightarrow>
   ind + length ds \<le> length (ui_viewer_docks u) \<Longrightarrow>
   fst (set_data_to_viewers False ind ds v) = None \<and>
   shown (snd (set_data_to_viewers False ind ds v)) = ds"
  by (induction ds arbitrary: ind) (auto simp: split_beta)

lemma set_data_to_viewers_no_grab_done:
  "grab_done_events (snd (set_data_to_viewers temp ind ds v)) = []"
  by (induction ds arbitrary: ind) (auto simp: split_beta split: option.splits)

lemma live_average_export:
  assumes "a < length (heap v)" "heap v ! a = E" "data_to_save_export v = Some a"
  shows "fst (live_average a v) = None"
    and "fst (snd (live_average a v)) < length (heap (snd (snd (live_average a v))))"
    and "heap (snd (snd (live_average a v))) ! fst (snd (live_average a v)) = E"
    and "data_to_save_export (snd (snd (live_average a v))) = Some (fst (snd (live_average a v)))"
  using assms
  by (simp_all add: live_average_def alloc_def Let_def nth_append dte_average_self)

lemma live_average_frame:
  "control (snd (snd (live_average a v))) = control v"
  "cycle (snd (snd (live_average a v))) = cycle v"
  "take (length (heap v)) (heap (snd (snd (live_average a v)))) = heap v"
  "length (heap v) \<le> length (heap (snd (snd (live_average a v))))"
  by (simp_all add: live_average_def alloc_def Let_def control_def cycle_def
      split: sum.splits)

lemma capture_bkg_eq:
  "capture_bkg a v =
     (if take_bkg_attr v
      then v\<lparr>heap := heap v @ [heap v ! a], bkg := Some (length (heap v)),
             take_bkg_attr := False\<rparr>
      else v)"
  by (simp add: capture_bkg_def alloc_def)

lemma refresh_decision_eq:
  "snd (refresh_decision now v) =
     (if grabing v \<and> now - start_grab_time v > of_nat (refresh_time (settings v)) / 1000
      then v\<lparr>start_grab_time := now\<rparr> else v)"
  "fst (refresh_decision now v) =
     (grabing v \<longrightarrow> now - start_grab_time v > of_nat (refresh_time (settings v)) / 1000)"
  by (simp_all add: refresh_decision_def Let_def)

lemma set_data_to_viewers_no_saved:
  "saved (snd (set_data_to_viewers temp ind ds v)) = []"
  by (induction ds arbitrary: ind) (auto simp: split_beta split: option.splits)

lemma set_data_to_viewers_frame:
  "control v' = control v \<Longrightarrow>
   set_data_to_viewers temp ind ds v' = set_data_to_viewers temp ind ds v"
proof (induction ds arbitrary: ind)
  case Nil
  then show ?case by simp
next
  case (Cons d ds)
  have t: "title v' = title v" and vs: "viewers v' = viewers v"
    and u: "map_option ui_viewer_docks (ui v') = map_option ui_viewer_docks (ui v)"
    using Cons.prems by (simp_all add: control_def)
  show ?case
    using Cons.IH[OF Cons.prems] t vs u
    by (cases "ui v"; cases "ui v'") (auto simp: split_beta)
qed

lemma display_branch:
  assumes "ui v = Some u" "show_data_setting (settings v)" "refresh"
  shows "received_data (fst (display_or_finish refresh a v)) = 0"
    and "grab_done_events (snd (display_or_finish refresh a v)) = []"
    and "saved (snd (display_or_finish refresh a v)) = []"
    and "control (fst (display_or_finish refresh a v)) = control v"
    and "data_to_save_export (fst (display_or_finish refresh a v)) = data_to_save_export v"
    and "bkg (fst (display_or_finish refresh a v)) = bkg v"
    and "take_bkg_attr (fst (display_or_finish refresh a v)) = take_bkg_attr v"
    and "do_save_data (fst (display_or_finish refresh a v)) = do_save_data v"
    and "ui (fst (display_or_finish refresh a v)) = ui v"
    and "take (length (heap v)) (heap (fst (display_or_finish refresh a v))) = heap v"
    and "length (heap v) < length (heap (fst (display_or_finish refresh a v)))"
  using assms
  by (auto simp: display_or_finish_def alloc_def control_def split_beta
      set_data_to_viewers_no_grab_done set_data_to_viewers_no_saved
      grab_done_events_append saved_append
      split: option.splits sum.splits)

lemma display_shown_plain:
  assumes "ui v = Some u" "show_data_setting (settings v)" "refresh"
    and "\<not> do_bkg v \<or> bkg v = None"
    and "length (dte_data (heap v ! a)) \<le> length (viewers v)"
    and "length (dte_data (heap v ! a)) \<le> length (ui_viewer_docks u)"
  shows "shown (snd (display_or_finish refresh a v)) = dte_data (heap v ! a)"
proof -
  let ?v1 = "v\<lparr>received_data := 0, heap := heap v @ [heap v ! a]\<rparr>"
  have c: "control ?v1 = control v" by (simp add: control_def)
  have ok: "fst (set_data_to_viewers False 0 (dte_data (heap v ! a)) v) = None"
      "shown (snd (set_data_to_viewers False 0 (dte_data (heap v ! a)) v)) = dte_data (heap v ! a)"
    using set_data_to_viewers_ok[OF assms(1), of 0 "dte_data (heap v ! a)"] assms(5,6)
    by simp_all
  show ?thesis
    using assms(1-4) ok set_data_to_viewers_frame[OF c]
    by (auto simp: display_or_finish_def alloc_def split_beta split: option.splits)
qed

lemma display_shown_subtracted:
  assumes "ui v = Some u" "show_data_setting (settings v)" "refresh"
    and "do_bkg v" "bkg v = Some b" "b < length (heap v)"
    and "dte_sub (heap v ! a) (heap v ! b) = Inr P"
    and "length (dte_data P) \<le> length (viewers v)"
    and "length (dte_data P) \<le> length (ui_viewer_docks u)"
  shows "shown (snd (display_or_finish refresh a v)) = dte_data P"
proof -
  let ?v2 = "v\<lparr>received_data := 0, heap := heap v @ [P]\<rparr>"
  have c: "control ?v2 = control v" by (simp add: control_def)
  have ok: "fst (set_data_to_viewers False 0 (dte_data P) v) = None"
      "shown (snd (set_data_to_viewers False 0 (dte_data P) v)) = dte_data P"
    using set_data_to_viewers_ok[OF assms(1), of 0 "dte_data P"] assms(8,9)
    by simp_all
  show ?thesis
    using assms(1-7) ok set_data_to_viewers_frame[OF c]
    by (auto simp: display_or_finish_def alloc_def split_beta nth_append
        split: option.splits)
qed

lemma finish_branch:
  assumes "\<not> (ui v \<noteq> None \<and> show_data_setting (settings v) \<and> refresh)"
  shows "grab_done_events (snd (display_or_finish refresh a v)) = [heap v ! a]"
    and "saved (snd (display_or_finish refresh a v)) = (if do_save_data v then [heap v ! a] else [])"
    and "shown (snd (display_or_finish refresh a v)) = []"
    and "heap (fst (display_or_finish refresh a v)) = heap v"
    and "data_to_save_export (fst (display_or_finish refresh a v)) = data_to_save_export v"
    and "bkg (fst (display_or_finish refresh a v)) = bkg v"
    and "take_bkg_attr (fst (display_or_finish refresh a v)) = take_bkg_attr v"
    and "grab_done (fst (display_or_finish refresh a v))"
  using assms
  by (auto simp: display_or_finish_def emit_grab_done_def save_export_data_def)

lemma init_show_data_passes:
  "stop_overshoot (settings v) \<longrightarrow> batch = [] \<Longrightarrow>
   init_show_data batch (flag_ui v) = (None, arranged batch v, reconfiguration batch v)"
  by (cases "ui v")
     (auto simp: init_show_data_def process_overshoot_def flag_ui_def arranged_def
       reconfiguration_def update_viewers_def viewers_changed_def Let_def)

lemma arranged_frame:
  "title (arranged batch v) = title v"
  "heap (arranged batch v) = heap v"
  "settings (arranged batch v) = settings v"
  "grabing (arranged batch v) = grabing v"
  "do_bkg (arranged batch v) = do_bkg v"
  "do_save_data (arranged batch v) = do_save_data v"
  "cycle (arranged batch v) = cycle v"
  "(ui (arranged batch v) = None) = (ui v = None)"
  by (simp_all add: arranged_def cycle_def split: option.splits)

lemma arranged_room:
  assumes "ui v = Some u"
    and "ui_viewer_types u = map dim batch \<longrightarrow>
       length batch \<le> length (viewers v) \<and> length batch \<le> length (ui_viewer_docks u)"
  shows "\<exists>u'. ui (arranged batch v) = Some u' \<and>
     length batch \<le> length (viewers (arranged batch v)) \<and>
     length batch \<le> length (ui_viewer_docks u')"
  using assms by (auto simp: arranged_def)

lemma arranged_same:
  assumes "ui v = Some u" and "ui_viewer_types u = map dim batch"
  shows "viewers (arranged batch v) = viewers v"
    and "ui (arranged batch v) = Some (u\<lparr>ui_data_ready := True\<rparr>)"
  using assms by (simp_all add: arranged_def)

lemma arranged_rebuilt:
  assumes "ui v = Some u" and "ui_viewer_types u \<noteq> map dim batch"
  shows "viewers (arranged batch v) = [0..<length batch]"
  using assms by (simp_all add: arranged_def)

lemma stored_export:
  "length (heap v) < length (heap (stored batch v))"
  "heap (stored batch v) ! length (heap v) = raw_export batch v"
  "data_to_save_export (stored batch v) = Some (length (heap v))"
  "control (stored batch v) = control (arranged batch v)"
  "cycle (stored batch v) = cycle v"
  "take (length (heap v)) (heap (stored batch v)) = heap v"
  "ui (stored batch v) = ui (arranged batch v)"
  using arranged_frame(7)[of batch v]
  by (simp_all add: stored_def control_def cycle_def)

lemma show_data_eq:
  assumes "stop_overshoot (settings v) \<longrightarrow> batch = []"
  shows "show_data now batch v =
     (case pre_display now batch v of
        (a, refresh, v5) \<Rightarrow>
          (fst (display_or_finish refresh a v5),
           head_events batch v @ snd (display_or_finish refresh a v5)))"
proof -
  let ?la = "live_average (length (heap v)) (stored batch v)"
  have none: "fst ?la = None"
    by (rule live_average_export(1)[OF stored_export(1) stored_export(2) stored_export(3)])
  obtain a v4 where la: "?la = (None, a, v4)"
    using none by (cases ?la) auto
  have st: "(arranged batch v)\<lparr>heap := heap v @ [\<lparr>dte_name = title v, dte_data = batch\<rparr>],
        data_to_save_export := Some (length (heap v))\<rparr> = stored batch v"
    by (simp add: stored_def raw_export_def)
  have "show_data now batch v =
      (case init_show_data batch (flag_ui v) of
         (Some e, v2, ev_init) \<Rightarrow> (v2, tcp_events batch v @ ev_init @ [Logger_exception e])
       | (None, v2, ev_init) \<Rightarrow>
           (case alloc \<lparr>dte_name = title v2, dte_data = batch\<rparr> v2 of
              (a0, v3) \<Rightarrow>
                (case live_average a0 (v3\<lparr>data_to_save_export := Some a0\<rparr>) of
                   (Some e, a, v4) \<Rightarrow>
                     (v4, tcp_events batch v @ ev_init @ [Logger_exception e])
                 | (None, a, v4) \<Rightarrow>
                     (case refresh_decision now (capture_bkg a v4) of
                        (refresh, v5) \<Rightarrow>
                          (case display_or_finish refresh a v5 of
                             (v6, ev) \<Rightarrow> (v6, tcp_events batch v @ ev_init @ ev))))))"
    unfolding show_data_def flag_ui_def tcp_events_def Let_def by (rule refl)
  also have "\<dots> = (case refresh_decision now (capture_bkg a v4) of
        (refresh, v5) \<Rightarrow>
          (fst (display_or_finish refresh a v5),
           head_events batch v @ snd (display_or_finish refresh a v5)))"
    using la
    by (simp add: init_show_data_passes[OF assms] split_beta alloc_def arranged_frame st
        head_events_def)
  also have "\<dots> = (case pre_display now batch v of
        (a, refresh, v5) \<Rightarrow>
          (fst (display_or_finish refresh a v5),
           head_events batch v @ snd (display_or_finish refresh a v5)))"
    using la by (simp add: pre_display_def split_beta)
  finally show ?thesis .
qed

lemma head_events_quiet:
  "grab_done_events (head_events batch v) = []"
  "shown (head_events batch v) = []"
  "saved (head_events batch v) = []"
  by (simp_all add: head_events_def tcp_events_def reconfiguration_def split: option.splits)

lemma pre_display_export:
  "fst (pre_display now batch v) < length (heap (snd (snd (pre_display now batch v))))"
  "heap (snd (snd (pre_display now batch v))) ! fst (pre_display now batch v) = raw_export batch v"
  "data_to_save_export (snd (snd (pre_display now batch v))) = Some (fst (pre_display now batch v))"
proof -
  let ?s = "stored batch v"
  let ?la = "live_average (length (heap v)) ?s"
  note ex = live_average_export[OF stored_export(1)[where v=v and batch=batch]
    stored_export(2)[where v=v and batch=batch] stored_export(3)[where v=v and batch=batch]]
  show "fst (pre_display now batch v) < length (heap (snd (snd (pre_display now batch v))))"
    using ex(2)
    by (auto simp: pre_display_def split_beta capture_bkg_eq refresh_decision_eq)
  show "heap (snd (snd (pre_display now batch v))) ! fst (pre_display now batch v) = raw_export batch v"
    using ex(2,3)
    by (auto simp: pre_display_def split_beta capture_bkg_eq refresh_decision_eq nth_append)
  show "data_to_save_export (snd (snd (pre_display now batch v))) = Some (fst (pre_display now batch v))"
    using ex(4)
    by (auto simp: pre_display_def split_beta capture_bkg_eq refresh_decision_eq)
qed

lemma pre_display_control:
  "control (snd (snd (pre_display now batch v))) = control (arranged batch v)"
  "do_save_data (snd (snd (pre_display now batch v))) = do_save_data v"
  "ui (snd (snd (pre_display now batch v))) = ui (arranged batch v)"
  "fst (snd (pre_display now batch v)) =
     (grabing v \<longrightarrow> now - start_grab_time v > of_nat (refresh_time (settings v)) / 1000)"
proof -
  let ?s = "stored batch v"
  let ?v4 = "snd (snd (live_average (length (heap v)) ?s))"
  have c: "control ?v4 = control (arranged batch v)" and y: "cycle ?v4 = cycle v"
    using live_average_frame(1,2)[of "length (heap v)" ?s] stored_export(4,5)[of batch v]
    by simp_all
  have u: "ui ?v4 = ui (arranged batch v)"
    using stored_export(7)[of batch v]
    by (simp add: live_average_def alloc_def Let_def split: sum.splits)
  have g: "grabing ?v4 = grabing v" "refresh_time (settings ?v4) = refresh_time (settings v)"
    using c arranged_frame(3,4)[of batch v] by (simp_all add: control_def)
  show "control (snd (snd (pre_display now batch v))) = control (arranged batch v)"
    using c by (auto simp: pre_display_def split_beta capture_bkg_eq refresh_decision_eq control_def)
  show "do_save_data (snd (snd (pre_display now batch v))) = do_save_data v"
    using y by (auto simp: pre_display_def split_beta capture_bkg_eq refresh_decision_eq cycle_def)
  show "ui (snd (snd (pre_display now batch v))) = ui (arranged batch v)"
    using u by (auto simp: pre_display_def split_beta capture_bkg_eq refresh_decision_eq)
  show "fst (snd (pre_display now batch v)) =
     (grabing v \<longrightarrow> now - start_grab_time v > of_nat (refresh_time (settings v)) / 1000)"
    using g y by (auto simp: pre_display_def split_beta capture_bkg_eq refresh_decision_eq
        cycle_def)
qed

lemma pre_display_heap:
  "take (length (heap v)) (heap (snd (snd (pre_display now batch v)))) = heap v"
  "length (heap v) < length (heap (snd (snd (pre_display now batch v))))"
proof -
  let ?s = "stored batch v"
  let ?v4 = "snd (snd (live_average (length (heap v)) ?s))"
  have l: "length (heap ?s) \<le> length (heap ?v4)"
    by (rule live_average_frame(4))
  have l': "length (heap v) < length (heap ?v4)"
    using l stored_export(1)[of v batch] by simp
  have "take (length (heap ?s)) (heap ?v4) = heap ?s"
    by (rule live_average_frame(3))
  then have "take (length (heap v)) (take (length (heap ?s)) (heap ?v4)) = take (length (heap v)) (heap ?s)"
    by simp
  then have t: "take (length (heap v)) (heap ?v4) = heap v"
    using stored_export(1)[of v batch] stored_export(6)[of v batch] by (simp add: min_def)
  show "take (length (heap v)) (heap (snd (snd (pre_display now batch v)))) = heap v"
    using t l' by (auto simp: pre_display_def split_beta capture_bkg_eq refresh_decision_eq)
  show "length (heap v) < length (heap (snd (snd (pre_display now batch v))))"
    using l' by (auto simp: pre_display_def split_beta capture_bkg_eq refresh_decision_eq)
qed

lemma pre_display_bkg:
  "take_bkg_attr (snd (snd (pre_display now batch v))) = False"
  "\<not> take_bkg_attr v \<Longrightarrow> bkg (snd (snd (pre_display now batch v))) = bkg v"
  "take_bkg_attr v \<Longrightarrow> \<exists>b. bkg (snd (snd (pre_display now batch v))) = Some b \<and>
      b < length (heap (snd (snd (pre_display now batch v)))) \<and>
      heap (snd (snd (pre_display now batch v))) ! b = raw_export batch v \<and>
      b \<noteq> fst (pre_display now batch v)"
proof -
  let ?s = "stored batch v"
  let ?la = "live_average (length (heap v)) ?s"
  let ?v4 = "snd (snd ?la)"
  note ex = live_average_export[OF stored_export(1)[where v=v and batch=batch]
    stored_export(2)[where v=v and batch=batch] stored_export(3)[where v=v and batch=batch]]
  have y: "cycle ?v4 = cycle v"
    using live_average_frame(2)[of "length (heap v)" ?s] stored_export(5)[of batch v] by simp
  then have tk: "take_bkg_attr ?v4 = take_bkg_attr v" and bk: "bkg ?v4 = bkg v"
    by (simp_all add: cycle_def)
  show "take_bkg_attr (snd (snd (pre_display now batch v))) = False"
    by (auto simp: pre_display_def split_beta capture_bkg_eq refresh_decision_eq)
  show "\<not> take_bkg_attr v \<Longrightarrow> bkg (snd (snd (pre_display now batch v))) = bkg v"
    using tk bk by (auto simp: pre_display_def split_beta capture_bkg_eq refresh_decision_eq)
  show "take_bkg_attr v \<Longrightarrow> \<exists>b. bkg (snd (snd (pre_display now batch v))) = Some b \<and>
      b < length (heap (snd (snd (pre_display now batch v)))) \<and>
      heap (snd (snd (pre_display now batch v))) ! b = raw_export batch v \<and>
      b \<noteq> fst (pre_display now batch v)"
    using tk ex(2,3)
    by (auto simp: pre_display_def split_beta capture_bkg_eq refresh_decision_eq)
qed

lemma nth_of_take:
  "take n xs = ys \<Longrightarrow> i < n \<Longrightarrow> n \<le> length xs \<Longrightarrow> xs ! i = ys ! i"
  by (metis nth_take)

lemma show_data_display:
  assumes "stop_overshoot (settings v) \<longrightarrow> batch = []"
    and "ui v = Some u" and "show_data_setting (settings v)"
    and "grabing v \<longrightarrow> now - start_grab_time v > of_nat (refresh_time (settings v)) / 1000"
  shows "grab_done_events (snd (show_data now batch v)) = []"
    and "saved (snd (show_data now batch v)) = []"
    and "\<exists>a. data_to_save_export (fst (show_data now batch v)) = Some a \<and>
           a < length (heap (fst (show_data now batch v))) \<and>
           heap (fst (show_data now batch v)) ! a = raw_export batch v"
    and "received_data (fst (show_data now batch v)) = 0"
    and "control (fst (show_data now batch v)) = control (arranged batch v)"
    and "ui (fst (show_data now batch v)) = ui (arranged batch v)"
    and "do_save_data (fst (show_data now batch v)) = do_save_data v"
    and "take (length (heap v)) (heap (fst (show_data now batch v))) = heap v"
    and "length (heap v) < length (heap (fst (show_data now batch v)))"
    and "take_bkg_attr (fst (show_data now batch v)) = False"
    and "\<not> take_bkg_attr v \<Longrightarrow> bkg (fst (show_data now batch v)) = bkg v"
    and "take_bkg_attr v \<Longrightarrow> \<exists>b. bkg (fst (show_data now batch v)) = Some b \<and>
           b < length (heap (fst (show_data now batch v))) \<and>
           heap (fst (show_data now batch v)) ! b = raw_export batch v"
proof -
  let ?a = "fst (pre_display now batch v)"
  let ?r = "fst (snd (pre_display now batch v))"
  let ?v5 = "snd (snd (pre_display now batch v))"
  let ?df = "display_or_finish ?r ?a ?v5"
  have eq: "show_data now batch v = (fst ?df, head_events batch v @ snd ?df)"
    by (simp add: show_data_eq[OF assms(1)] split_beta)
  have "ui (arranged batch v) \<noteq> None" using arranged_frame(8)[of batch v] assms(2) by simp
  then obtain u' where ua: "ui (arranged batch v) = Some u'" by auto
  have u5: "ui ?v5 = Some u'"
    using pre_display_control(3)[of now batch v] ua by simp
  have s5: "show_data_setting (settings ?v5)"
    using pre_display_control(1)[of now batch v] arranged_frame(3)[of batch v] assms(3)
    by (simp add: control_def)
  have r: "?r" using pre_display_control(4)[of now batch v] assms(4) by simp
  note d = display_branch[OF u5 s5 r, of ?a]
  note ex = pre_display_export[of now batch v]
  have lt: "length (heap ?v5) < length (heap (fst ?df))" and tk: "take (length (heap ?v5)) (heap (fst ?df)) = heap ?v5"
    using d(10,11) by simp_all
  have keep: "heap (fst ?df) ! i = heap ?v5 ! i" if "i < length (heap ?v5)" for i
    using nth_of_take[OF tk that] lt by simp
  show "grab_done_events (snd (show_data now batch v)) = []"
    unfolding eq using d(2) head_events_quiet(1) by (simp add: grab_done_events_append)
  show "saved (snd (show_data now batch v)) = []"
    unfolding eq using d(3) head_events_quiet(3) by (simp add: saved_append)
  show "\<exists>a. data_to_save_export (fst (show_data now batch v)) = Some a \<and>
           a < length (heap (fst (show_data now batch v))) \<and>
           heap (fst (show_data now batch v)) ! a = raw_export batch v"
    unfolding eq using d(5) ex keep[OF ex(1)] lt by auto
  show "received_data (fst (show_data now batch v)) = 0"
    unfolding eq using d(1) by simp
  show "control (fst (show_data now batch v)) = control (arranged batch v)"
    unfolding eq using d(4) pre_display_control(1)[of now batch v] by simp
  show "ui (fst (show_data now batch v)) = ui (arranged batch v)"
    unfolding eq using d(9) u5 ua by simp
  show "do_save_data (fst (show_data now batch v)) = do_save_data v"
    unfolding eq using d(8) pre_display_control(2)[of now batch v] by simp
  have l5: "length (heap v) < length (heap ?v5)" by (rule pre_display_heap(2))
  have "take (length (heap v)) (take (length (heap ?v5)) (heap (fst ?df))) = take (length (heap v)) (heap ?v5)"
    using tk by simp
  then show "take (length (heap v)) (heap (fst (show_data now batch v))) = heap v"
    unfolding eq using l5 pre_display_heap(1)[of v now batch] by (simp add: min_def)
  show "length (heap v) < length (heap (fst (show_data now batch v)))"
    unfolding eq using l5 lt by simp
  show "take_bkg_attr (fst (show_data now batch v)) = False"
    unfolding eq using d(7) pre_display_bkg(1)[of now batch v] by simp
  show "\<not> take_bkg_attr v \<Longrightarrow> bkg (fst (show_data now batch v)) = bkg v"
    unfolding eq using d(6) pre_display_bkg(2)[of v now batch] by simp
  show "take_bkg_attr v \<Longrightarrow> \<exists>b. bkg (fst (show_data now batch v)) = Some b \<and>
           b < length (heap (fst (show_data now batch v))) \<and>
           heap (fst (show_data now batch v)) ! b = raw_export batch v"
  proof -
    assume "take_bkg_attr v"
    from pre_display_bkg(3)[OF this, of now batch]
    obtain b where b: "bkg ?v5 = Some b" "b < length (heap ?v5)" "heap ?v5 ! b = raw_export batch v"
      by blast
    show ?thesis unfolding eq using d(6) b keep[OF b(2)] lt by auto
  qed
qed

lemma show_data_finish:
  assumes "stop_overshoot (settings v) \<longrightarrow> batch = []"
    and "\<not> (ui v \<noteq> None \<and> show_data_setting (settings v) \<and>
     (grabing v \<longrightarrow> now - start_grab_time v > of_nat (refresh_time (settings v)) / 1000))"
  shows "grab_done_events (snd (show_data now batch v)) = [raw_export batch v]"
    and "saved (snd (show_data now batch v)) = (if do_save_data v then [raw_export batch v] else [])"
    and "shown (snd (show_data now batch v)) = []"
    and "\<exists>a. data_to_save_export (fst (show_data now batch v)) = Some a \<and>
           a < length (heap (fst (show_data now batch v))) \<and>
           heap (fst (show_data now batch v)) ! a = raw_export batch v"
    and "take (length (heap v)) (heap (fst (show_data now batch v))) = heap v"
    and "take_bkg_attr (fst (show_data now batch v)) = False"
    and "\<not> take_bkg_attr v \<Longrightarrow> bkg (fst (show_data now batch v)) = bkg v"
    and "take_bkg_attr v \<Longrightarrow> \<exists>b. bkg (fst (show_data now batch v)) = Some b \<and>
           b < length (heap (fst (show_data now batch v))) \<and>
           heap (fst (show_data now batch v)) ! b = raw_export batch v"
proof -
  let ?a = "fst (pre_display now batch v)"
  let ?r = "fst (snd (pre_display now batch v))"
  let ?v5 = "snd (snd (pre_display now batch v))"
  let ?df = "display_or_finish ?r ?a ?v5"
  have eq: "show_data now batch v = (fst ?df, head_events batch v @ snd ?df)"
    by (simp add: show_data_eq[OF assms(1)] split_beta)
  have n: "\<not> (ui ?v5 \<noteq> None \<and> show_data_setting (settings ?v5) \<and> ?r)"
    using pre_display_control(1,3,4)[of now batch v] arranged_frame(3,8)[of batch v] assms(2)
    by (auto simp: control_def)
  note f = finish_branch[OF n, of ?a]
  note ex = pre_display_export[of now batch v]
  show "grab_done_events (snd (show_data now batch v)) = [raw_export batch v]"
    unfolding eq using f(1) ex(2) head_events_quiet(1) by (simp add: grab_done_events_append)
  show "saved (snd (show_data now batch v)) = (if do_save_data v then [raw_export batch v] else [])"
    unfolding eq using f(2) ex(2) head_events_quiet(3) pre_display_control(2)[of now batch v]
    by (simp add: saved_append)
  show "shown (snd (show_data now batch v)) = []"
    unfolding eq using f(3) head_events_quiet(2) by (simp add: shown_append)
  show "\<exists>a. data_to_save_export (fst (show_data now batch v)) = Some a \<and>
           a < length (heap (fst (show_data now batch v))) \<and>
           heap (fst (show_data now batch v)) ! a = raw_export batch v"
    unfolding eq using f(4,5) ex by auto
  show "take (length (heap v)) (heap (fst (show_data now batch v))) = heap v"
    unfolding eq using f(4) pre_display_heap(1)[of v now batch] by simp
  show "take_bkg_attr (fst (show_data now batch v)) = False"
    unfolding eq using f(7) pre_display_bkg(1)[of now batch v] by simp
  show "\<not> take_bkg_attr v \<Longrightarrow> bkg (fst (show_data now batch v)) = bkg v"
    unfolding eq using f(6) pre_display_bkg(2)[of v now batch] by simp
  show "take_bkg_attr v \<Longrightarrow> \<exists>b. bkg (fst (show_data now batch v)) = Some b \<and>
           b < length (heap (fst (show_data now batch v))) \<and>
           heap (fst (show_data now batch v)) ! b = raw_export batch v"
  proof -
    assume "take_bkg_attr v"
    from pre_display_bkg(3)[OF this, of now batch]
    show ?thesis unfolding eq using f(4,6) by auto
  qed
qed

lemma show_data_shown:
  assumes "stop_overshoot (settings v) \<longrightarrow> batch = []"
    and "ui (arranged batch v) = Some u'" and "show_data_setting (settings v)"
    and "grabing v \<longrightarrow> now - start_grab_time v > of_nat (refresh_time (settings v)) / 1000"
    and "length batch \<le> length (viewers (arranged batch v))"
    and "length batch \<le> length (ui_viewer_docks u')"
  shows "\<not> do_bkg v \<or> (bkg v = None \<and> \<not> take_bkg_attr v) \<Longrightarrow>
      shown (snd (show_data now batch v)) = batch"
    and "do_bkg v \<Longrightarrow> \<not> take_bkg_attr v \<Longrightarrow> bkg v = Some b \<Longrightarrow> b < length (heap v) \<Longrightarrow>
      dte_sub (raw_export batch v) (heap v ! b) = Inr P \<Longrightarrow>
      shown (snd (show_data now batch v)) = dte_data P"
    and "do_bkg v \<Longrightarrow> take_bkg_attr v \<Longrightarrow>
      shown (snd (show_data now batch v)) = map zeroed batch"
proof -
  let ?a = "fst (pre_display now batch v)"
  let ?r = "fst (snd (pre_display now batch v))"
  let ?v5 = "snd (snd (pre_display now batch v))"
  let ?df = "display_or_finish ?r ?a ?v5"
  have eq: "show_data now batch v = (fst ?df, head_events batch v @ snd ?df)"
    by (simp add: show_data_eq[OF assms(1)] split_beta)
  have sh: "shown (snd (show_data now batch v)) = shown (snd ?df)"
    unfolding eq using head_events_quiet(2) by (simp add: shown_append)
  have u5: "ui ?v5 = Some u'"
    using pre_display_control(3)[of now batch v] assms(2) by simp
  have c5: "control ?v5 = control (arranged batch v)" by (rule pre_display_control(1))
  have s5: "show_data_setting (settings ?v5)"
    and vs: "viewers ?v5 = viewers (arranged batch v)"
    and db: "do_bkg ?v5 = do_bkg v"
    using c5 assms(3) arranged_frame(3,5)[of batch v] by (simp_all add: control_def)
  have r: "?r" using pre_display_control(4)[of now batch v] assms(4) by simp
  note ex = pre_display_export[of now batch v]
  have raw: "dte_data (heap ?v5 ! ?a) = batch" using ex(2) by (simp add: raw_export_def)
  note l = assms(5,6)
  {
    assume h: "\<not> do_bkg v \<or> (bkg v = None \<and> \<not> take_bkg_attr v)"
    have nb: "\<not> do_bkg ?v5 \<or> bkg ?v5 = None"
      using h db pre_display_bkg(2)[of v now batch] by auto
    show "shown (snd (show_data now batch v)) = batch"
      unfolding sh
      using display_shown_plain[OF u5 s5 r nb, of ?a] l raw vs by simp
  }
  {
    assume h: "do_bkg v" "\<not> take_bkg_attr v" "bkg v = Some b" "b < length (heap v)"
      "dte_sub (raw_export batch v) (heap v ! b) = Inr P"
    have lp: "length (dte_data P) = length batch"
      using dte_sub_length[OF h(5)] by (simp add: raw_export_def)
    have b5: "bkg ?v5 = Some b" using h(2,3) pre_display_bkg(2)[of v now batch] by simp
    have lb: "b < length (heap ?v5)" using h(4) pre_display_heap(2)[of v now batch] by simp
    have hb: "heap ?v5 ! b = heap v ! b"
      using nth_of_take[OF pre_display_heap(1)[of v now batch] h(4)]
        pre_display_heap(2)[of v now batch] by simp
    have sub: "dte_sub (heap ?v5 ! ?a) (heap ?v5 ! b) = Inr P" using h(5) ex(2) hb by simp
    have d5: "do_bkg ?v5" using db h(1) by simp
    show "shown (snd (show_data now batch v)) = dte_data P"
      unfolding sh
      using display_shown_subtracted[OF u5 s5 r d5 b5 lb sub] l vs lp by simp
  }
  {
    assume h: "do_bkg v" "take_bkg_attr v"
    from pre_display_bkg(3)[OF h(2), of now batch]
    obtain b where b: "bkg ?v5 = Some b" "b < length (heap ?v5)" "heap ?v5 ! b = raw_export batch v"
      by blast
    have sub: "dte_sub (heap ?v5 ! ?a) (heap ?v5 ! b) =
        Inr ((raw_export batch v)\<lparr>dte_data := map zeroed (dte_data (raw_export batch v))\<rparr>)"
      using ex(2) b(3) by (simp add: dte_sub_self)
    have d5: "do_bkg ?v5" using db h(1) by simp
    show "shown (snd (show_data now batch v)) = map zeroed batch"
      unfolding sh
      using display_shown_subtracted[OF u5 s5 r d5 b(1,2) sub] l vs
      by (simp add: raw_export_def)
  }
qed

lemma foldl_dte_append: "foldl dte_append X xs = dte_append X (concat xs)"
  by (induction xs arbitrary: X) (simp_all add: dte_append_def)

lemma dte_append_append: "dte_append (dte_append X a) b = dte_append X (a @ b)"
  by (simp add: dte_append_def)

lemma dte_append_Nil: "dte_append X [] = X"
  by (simp add: dte_append_def)

lemma echo_step:
  assumes "data_to_save_export v = Some a" "a < length (heap v)" "ui v = Some u"
  shows "received_data (fst (get_data_from_viewer d v)) = Suc (received_data v)"
    and "heap (fst (get_data_from_viewer d v)) ! a =
           dte_append (heap v ! a) (fragment_items (title v) d)"
    and "data_to_save_export (fst (get_data_from_viewer d v)) = Some a"
    and "a < length (heap (fst (get_data_from_viewer d v)))"
    and "ui (fst (get_data_from_viewer d v)) = Some u"
    and "viewers (fst (get_data_from_viewer d v)) = viewers v"
    and "title (fst (get_data_from_viewer d v)) = title v"
    and "grab_done_events (snd (get_data_from_viewer d v)) =
           (if Suc (received_data v) = length (viewers v)
            then [dte_append (heap v ! a) (fragment_items (title v) d)] else [])"
    and "saved (snd (get_data_from_viewer d v)) =
           (if Suc (received_data v) = length (viewers v) \<and> do_save_data v
            then [dte_append (heap v ! a) (fragment_items (title v) d)] else [])"
    and "do_save_data (fst (get_data_from_viewer d v)) =
           (do_save_data v \<and> Suc (received_data v) \<noteq> length (viewers v))"
  using assms
  by (auto simp: get_data_from_viewer_def Let_def emit_grab_done_def save_export_data_def
      fragment_items_def dte_append_def)

lemma echoes_run:
  assumes "data_to_save_export v = Some a" "a < length (heap v)" "ui v = Some u"
  shows "received_data (fst (echoes es v)) = received_data v + length es \<and>
     heap (fst (echoes es v)) ! a =
       dte_append (heap v ! a) (concat (map (fragment_items (title v)) es)) \<and>
     data_to_save_export (fst (echoes es v)) = Some a \<and>
     a < length (heap (fst (echoes es v))) \<and>
     ui (fst (echoes es v)) = Some u \<and>
     viewers (fst (echoes es v)) = viewers v \<and>
     title (fst (echoes es v)) = title v \<and>
     grab_done_events (snd (echoes es v)) = completed a es v \<and>
     saved (snd (echoes es v)) = (if do_save_data v then completed a es v else [])"
  using assms
proof (induction es arbitrary: v)
  case Nil
  then show ?case by (simp add: dte_append_Nil completed_def)
next
  case (Cons d es)
  let ?v1 = "fst (get_data_from_viewer d v)"
  note st = echo_step[OF Cons.prems, of d]
  note ih = Cons.IH[OF st(3) st(4) st(5)]
  have e: "echoes (d # es) v =
      (fst (echoes es ?v1), snd (get_data_from_viewer d v) @ snd (echoes es ?v1))"
    by (simp add: split_beta)
  let ?K = "length (viewers v)"
  let ?n = "received_data v"
  have c1: "completed a es ?v1 =
      (if Suc ?n < ?K \<and> ?K \<le> Suc ?n + length es
       then [dte_append (heap v ! a)
              (concat (map (fragment_items (title v)) (d # take (?K - Suc ?n) es)))]
       else [])"
    using st(1,2,6,7) by (simp add: completed_def dte_append_append)
  have gd: "grab_done_events (snd (echoes (d # es) v)) = completed a (d # es) v"
  proof (cases "Suc ?n = ?K")
    case True
    then have k: "?K - ?n = Suc 0" by simp
    have t: "take (?K - ?n) (d # es) = [d]" unfolding k by simp
    show ?thesis
      unfolding e using st(8) ih c1 True t
      by (simp add: grab_done_events_append completed_def)
  next
    case False
    show ?thesis
    proof (cases "Suc ?n < ?K")
      case True
      then have t: "take (?K - ?n) (d # es) = d # take (?K - Suc ?n) es"
        by (simp add: take_Cons')
      show ?thesis
        unfolding e using st(8) ih c1 False True t
        by (simp add: grab_done_events_append completed_def)
    next
      case False
      then show ?thesis
        unfolding e using st(8) ih c1 \<open>Suc ?n \<noteq> ?K\<close>
        by (simp add: grab_done_events_append completed_def)
    qed
  qed
  have sv: "saved (snd (echoes (d # es) v)) = (if do_save_data v then completed a (d # es) v else [])"
  proof (cases "Suc ?n = ?K")
    case True
    then have k: "?K - ?n = Suc 0" by simp
    have t: "take (?K - ?n) (d # es) = [d]" unfolding k by simp
    show ?thesis
      unfolding e using st(9,10) ih c1 True t
      by (simp add: saved_append completed_def)
  next
    case False
    show ?thesis
    proof (cases "Suc ?n < ?K")
      case True
      then have t: "take (?K - ?n) (d # es) = d # take (?K - Suc ?n) es"
        by (simp add: take_Cons')
      show ?thesis
        unfolding e using st(9,10) ih c1 False True t
        by (simp add: saved_append completed_def)
    next
      case False
      then show ?thesis
        unfolding e using st(9,10) ih c1 \<open>Suc ?n \<noteq> ?K\<close>
        by (simp add: saved_append completed_def)
    qed
  qed
  show ?case
    using gd sv ih st(1,2,6,7)
    unfolding e by (simp add: dte_append_append)
qed

lemma show_data_viewers:
  assumes "stop_overshoot (settings v) \<longrightarrow> batch = []"
    and "ui v = Some u" and "show_data_setting (settings v)"
    and "grabing v \<longrightarrow> now - start_grab_time v > of_nat (refresh_time (settings v)) / 1000"
  shows "viewers (fst (show_data now batch v)) =
       (if ui_viewer_types u \<noteq> map dim batch then [0..<length batch] else viewers v)"
    and "title (fst (show_data now batch v)) = title v"
proof -
  have c: "control (fst (show_data now batch v)) = control (arranged batch v)"
    by (rule show_data_display(5)[OF assms])
  then have "viewers (fst (show_data now batch v)) = viewers (arranged batch v)"
    by (simp add: control_def)
  then show "viewers (fst (show_data now batch v)) =
       (if ui_viewer_types u \<noteq> map dim batch then [0..<length batch] else viewers v)"
    using assms(2) by (simp add: arranged_def)
  show "title (fst (show_data now batch v)) = title v"
    using c arranged_frame(1)[of batch v] by (simp add: control_def)
qed

section \<open>The controller: completion of a cycle\<close>

lemma completed_all:
  "received_data v = 0 \<Longrightarrow> 0 < length (viewers v) \<Longrightarrow> length es = length (viewers v) \<Longrightarrow>
     completed a es v = [dte_append (heap v ! a) (concat (map (fragment_items (title v)) es))]"
  by (simp add: completed_def)

lemma completed_early:
  "received_data v = 0 \<Longrightarrow> length es < length (viewers v) \<Longrightarrow> completed a es v = []"
  by (simp add: completed_def)

lemma completed_late:
  "length (viewers v) \<le> received_data v \<Longrightarrow> completed a es v = []"
  by (simp add: completed_def)

text \<open>
  Claim C2 (amended). A cycle whose batch passes the overshoot check (the check is off, or
  the batch is empty). Without a user interface no display surface is attached and
  \<open>show_data\<close> emits the export at once, with the raw batch and no fragment. With a user
  interface and a batch that is handed to the viewers, let \<open>K \<ge> 1\<close> be the number of
  viewers after \<open>show_data\<close> (the user interface rebuilds them, one per element of the
  batch, when the types of the batch are not those it shows): \<open>show_data\<close> emits nothing,
  the first \<open>k < K\<close> echoes emit nothing, the \<open>K\<close> echoes together emit the export exactly
  once, and it is the export of the raw batch to which exactly the \<open>K\<close> fragments have
  been appended, in the order of arrival; no echo after the \<open>K\<close>th emits again.
\<close>

theorem export_emitted_after_all_echoes:
  assumes "stop_overshoot (settings v) \<longrightarrow> batch = []"
  shows "(ui v = None \<longrightarrow>
      grab_done_events (snd (show_data now batch v)) =
        [\<lparr>dte_name = title v, dte_data = batch\<rparr>]) \<and>
   (ui v = Some u \<and> show_data_setting (settings v) \<and>
    (grabing v \<longrightarrow> now - start_grab_time v > of_nat (refresh_time (settings v)) / 1000) \<longrightarrow>
      viewers (fst (show_data now batch v)) =
        (if ui_viewer_types u \<noteq> map dim batch then [0..<length batch] else viewers v)) \<and>
   (ui v \<noteq> None \<and> show_data_setting (settings v) \<and>
    (grabing v \<longrightarrow> now - start_grab_time v > of_nat (refresh_time (settings v)) / 1000) \<and>
    0 < length (viewers (fst (show_data now batch v))) \<and>
    length es = length (viewers (fst (show_data now batch v))) \<longrightarrow>
      grab_done_events (snd (show_data now batch v)) = [] \<and>
      (k < length es \<longrightarrow>
         grab_done_events (snd (echoes (take k es) (fst (show_data now batch v)))) = []) \<and>
      grab_done_events (snd (echoes es (fst (show_data now batch v)))) =
        [foldl dte_append \<lparr>dte_name = title v, dte_data = batch\<rparr>
           (map (fragment_items (title v)) es)] \<and>
      grab_done_events (snd (echoes extra
          (fst (echoes es (fst (show_data now batch v)))))) = [])"
proof (intro conjI impI)
  assume "ui v = None"
  then have "\<not> (ui v \<noteq> None \<and> show_data_setting (settings v) \<and>
     (grabing v \<longrightarrow> now - start_grab_time v > of_nat (refresh_time (settings v)) / 1000))"
    by simp
  from show_data_finish(1)[OF assms this]
  show "grab_done_events (snd (show_data now batch v)) = [\<lparr>dte_name = title v, dte_data = batch\<rparr>]"
    by (simp add: raw_export_def)
next
  assume h: "ui v = Some u \<and> show_data_setting (settings v) \<and>
    (grabing v \<longrightarrow> now - start_grab_time v > of_nat (refresh_time (settings v)) / 1000)"
  then have u: "ui v = Some u" and sd: "show_data_setting (settings v)"
    and rf: "grabing v \<longrightarrow> now - start_grab_time v > of_nat (refresh_time (settings v)) / 1000"
    by simp_all
  have "viewers (fst (show_data now batch v)) = viewers (arranged batch v)"
    using show_data_display(5)[OF assms u sd rf] by (simp add: control_def)
  then show "viewers (fst (show_data now batch v)) =
        (if ui_viewer_types u \<noteq> map dim batch then [0..<length batch] else viewers v)"
    using u by (simp add: arranged_def)
next
  assume h: "ui v \<noteq> None \<and> show_data_setting (settings v) \<and>
    (grabing v \<longrightarrow> now - start_grab_time v > of_nat (refresh_time (settings v)) / 1000) \<and>
    0 < length (viewers (fst (show_data now batch v))) \<and>
    length es = length (viewers (fst (show_data now batch v)))"
  then obtain u0 where u: "ui v = Some u0" by auto
  let ?v' = "fst (show_data now batch v)"
  have sd: "show_data_setting (settings v)"
    and rf: "grabing v \<longrightarrow> now - start_grab_time v > of_nat (refresh_time (settings v)) / 1000"
    using h by simp_all
  note d = show_data_display[OF assms u sd rf]
  from d(3) obtain a where a: "data_to_save_export ?v' = Some a"
    "a < length (heap ?v')" "heap ?v' ! a = raw_export batch v" by blast
  have "ui (arranged batch v) \<noteq> None" using arranged_frame(8)[of batch v] u by simp
  then obtain u' where u': "ui ?v' = Some u'" using d(6) by auto
  have r0: "received_data ?v' = 0" by (rule d(4))
  have t: "title ?v' = title v"
    using d(5) arranged_frame(1)[of batch v] by (simp add: control_def)
  note run = echoes_run[OF a(1,2) u']
  show "grab_done_events (snd (show_data now batch v)) = []" by (rule d(1))
  {
    assume "k < length es"
    then have "length (take k es) < length (viewers ?v')" using h by simp
    then show "grab_done_events (snd (echoes (take k es) ?v')) = []"
      using run[of "take k es"] completed_early[OF r0] by simp
  }
  have K: "0 < length (viewers ?v')" "length es = length (viewers ?v')" using h by simp_all
  show "grab_done_events (snd (echoes es ?v')) =
      [foldl dte_append \<lparr>dte_name = title v, dte_data = batch\<rparr>
         (map (fragment_items (title v)) es)]"
    using run[of es] completed_all[OF r0 K, of a] a(3) t
    by (simp add: raw_export_def foldl_dte_append)
  let ?w = "fst (echoes es ?v')"
  have w: "data_to_save_export ?w = Some a" "a < length (heap ?w)"
    "ui ?w = Some u'"
    "received_data ?w = received_data ?v' + length es" "viewers ?w = viewers ?v'"
    using run[of es] by simp_all
  have "length (viewers ?w) \<le> received_data ?w" using w(4,5) K by simp
  then show "grab_done_events (snd (echoes extra ?w)) = []"
    using echoes_run[OF w(1,2,3), of extra] completed_late by simp
qed

text \<open>Three cycles: a controller without user interface; two viewers and a batch of two
  elements; one viewer and a batch of two elements, for which the user interface builds
  a second viewer, so that one echo is not enough.\<close>

theorem export_emitted_after_all_echoes_witness:
  "grab_done_events (snd (show_data 1 (sample0D [1]) (viewer_init None []))) =
     [\<lparr>dte_name = ''Testing'', dte_data = sample0D [1]\<rparr>] \<and>
   grab_done_events (snd (echoes [fragment 1, fragment 2]
      (fst (show_data 1 (sample0D [1] @ sample0D [2]) two_viewers)))) =
     [foldl dte_append \<lparr>dte_name = ''Testing'', dte_data = sample0D [1] @ sample0D [2]\<rparr>
        (map (fragment_items ''Testing'') [fragment 1, fragment 2])] \<and>
   length (viewers (fst (show_data 1 (sample0D [1] @ sample0D [2]) one_viewer))) = 2 \<and>
   grab_done_events (snd (echoes [fragment 1]
      (fst (show_data 1 (sample0D [1] @ sample0D [2]) one_viewer)))) = [] \<and>
   grab_done_events (snd (echoes [fragment 1, fragment 2]
      (fst (show_data 1 (sample0D [1] @ sample0D [2]) one_viewer)))) =
     [foldl dte_append \<lparr>dte_name = ''Testing'', dte_data = sample0D [1] @ sample0D [2]\<rparr>
        (map (fragment_items ''Testing'') [fragment 1, fragment 2])]"
proof -
  let ?B = "sample0D [1] @ sample0D [2]"
  have p0: "stop_overshoot (settings (viewer_init None [])) \<longrightarrow> sample0D [1] = []"
    and p2: "stop_overshoot (settings two_viewers) \<longrightarrow> ?B = []"
    and p1: "stop_overshoot (settings one_viewer) \<longrightarrow> ?B = []"
    by (simp_all add: viewer_init_def two_viewers_def one_viewer_def default_settings_def)
  have a: "ui (viewer_init None []) = None" "title (viewer_init None []) = ''Testing''"
    by (simp_all add: viewer_init_def)
  have b: "ui two_viewers = Some (ui_with [Data0D, Data0D] [0, 1])"
    "show_data_setting (settings two_viewers)"
    "grabing two_viewers \<longrightarrow>
       1 - start_grab_time two_viewers > of_nat (refresh_time (settings two_viewers)) / 1000"
    "title two_viewers = ''Testing''" "viewers two_viewers = [0, 1]"
    "ui_viewer_types (ui_with [Data0D, Data0D] [0, 1]) = map dim ?B"
    by (simp_all add: two_viewers_def viewer_init_def default_settings_def ui_with_def
        sample0D_def)
  have c: "ui one_viewer = Some (ui_with [Data0D] [0])"
    "show_data_setting (settings one_viewer)"
    "grabing one_viewer \<longrightarrow>
       1 - start_grab_time one_viewer > of_nat (refresh_time (settings one_viewer)) / 1000"
    "title one_viewer = ''Testing''"
    "ui_viewer_types (ui_with [Data0D] [0]) \<noteq> map dim ?B" "length ?B = 2"
    by (simp_all add: one_viewer_def viewer_init_def default_settings_def ui_with_def
        sample0D_def)
  note t0 = export_emitted_after_all_echoes[OF p0, of 1 "ui_with [] []" "[]" 0 "[]"]
  note t2 = export_emitted_after_all_echoes[OF p2, of 1 "ui_with [Data0D, Data0D] [0, 1]"
      "[fragment 1, fragment 2]" 0 "[]"]
  note t1 = export_emitted_after_all_echoes[OF p1, of 1 "ui_with [Data0D] [0]"
      "[fragment 1, fragment 2]" 1 "[]"]
  have v2: "viewers (fst (show_data 1 ?B two_viewers)) = [0, 1]"
    using t2 b by simp
  have v1: "viewers (fst (show_data 1 ?B one_viewer)) = [0..<2]"
    using t1 c by simp
  have l1: "length (viewers (fst (show_data 1 ?B one_viewer))) = 2" unfolding v1 by simp
  have r0: "grab_done_events (snd (show_data 1 (sample0D [1]) (viewer_init None []))) =
     [\<lparr>dte_name = ''Testing'', dte_data = sample0D [1]\<rparr>]"
    using t0 a by simp
  have r2: "grab_done_events (snd (echoes [fragment 1, fragment 2]
      (fst (show_data 1 ?B two_viewers)))) =
     [foldl dte_append \<lparr>dte_name = ''Testing'', dte_data = ?B\<rparr>
        (map (fragment_items ''Testing'') [fragment 1, fragment 2])]"
    using t2 b v2 by simp
  have r1: "grab_done_events (snd (echoes (take 1 [fragment 1, fragment 2])
      (fst (show_data 1 ?B one_viewer)))) = [] \<and>
    grab_done_events (snd (echoes [fragment 1, fragment 2]
      (fst (show_data 1 ?B one_viewer)))) =
     [foldl dte_append \<lparr>dte_name = ''Testing'', dte_data = ?B\<rparr>
        (map (fragment_items ''Testing'') [fragment 1, fragment 2])]"
    using t1 c l1 by simp
  have tk: "take 1 [fragment 1, fragment 2] = [fragment 1]" by simp
  show ?thesis using r0 r2 r1 l1 unfolding tk by blast
qed

text \<open>C2 as stated fails for \<open>K = 0\<close> with a user interface: an empty batch with no
  viewer takes the display branch, no echo can follow, and the export is never
  emitted.\<close>

theorem no_viewer_no_export_counterexample:
  "ui no_viewer \<noteq> None \<and> length (viewers no_viewer) = 0 \<and>
   length (viewers (fst (show_data 1 [] no_viewer))) = 0 \<and>
   grab_done_events (snd (show_data 1 [] no_viewer)) = [] \<and>
   grab_done_events (snd (echoes [] (fst (show_data 1 [] no_viewer)))) = []"
proof -
  have p: "stop_overshoot (settings no_viewer) \<longrightarrow> [] = ([] :: DataFromPlugins list)" by simp
  have u: "ui no_viewer = Some (ui_with [] [])" and s: "show_data_setting (settings no_viewer)"
    and g: "grabing no_viewer \<longrightarrow>
       1 - start_grab_time no_viewer > of_nat (refresh_time (settings no_viewer)) / 1000"
    by (simp_all add: no_viewer_def viewer_init_def default_settings_def)
  have "viewers (fst (show_data 1 [] no_viewer)) = viewers (arranged [] no_viewer)"
    using show_data_display(5)[OF p u s g] by (simp add: control_def)
  then have v: "length (viewers (fst (show_data 1 [] no_viewer))) = 0"
    by (simp add: arranged_def no_viewer_def viewer_init_def ui_with_def)
  show ?thesis
    using show_data_display(1)[OF p u s g] u v
    by (simp add: no_viewer_def viewer_init_def)
qed
section \<open>The controller: Background\<close>





text \<open>
  Claim C10. A batch processed by \<open>show_data\<close> with background subtraction on and a
  Background stored at address \<open>b\<close>. For every batch, the object at \<open>b\<close> and every other
  object that existed before the call are unchanged, and the Background is still the
  object at \<open>b\<close> unless a new one was being taken. A batch stopped by the overshoot check
  is neither subtracted, shown, emitted nor saved. For a batch that passes it, the stored
  export is an object that holds the batch as received. When the batch is handed to the
  viewers, what they are shown is the difference of the export and the Background, when
  that difference exists, and after the echoes of all viewers the export emitted on
  \<open>grab_done_signal\<close>, which is also the one handed to saving when a save is pending, is
  the export of the batch as received with the fragments appended. When the batch is not
  handed to the viewers nothing is subtracted and the export emitted and saved at once
  is the batch as received.
\<close>

theorem background_subtraction_on_copy:
  assumes "do_bkg v" and "bkg v = Some b" and "b < length (heap v)"
  shows "heap (fst (show_data now batch v)) ! b = heap v ! b \<and>
     take (length (heap v)) (heap (fst (show_data now batch v))) = heap v \<and>
     (\<not> take_bkg_attr v \<longrightarrow> bkg (fst (show_data now batch v)) = Some b) \<and>
     (stop_overshoot (settings v) \<and> batch \<noteq> [] \<longrightarrow>
        shown (snd (show_data now batch v)) = [] \<and>
        grab_done_events (snd (show_data now batch v)) = [] \<and>
        saved (snd (show_data now batch v)) = [] \<and>
        heap (fst (show_data now batch v)) = heap v) \<and>
     ((stop_overshoot (settings v) \<longrightarrow> batch = []) \<longrightarrow>
        (\<exists>a. data_to_save_export (fst (show_data now batch v)) = Some a \<and>
           a < length (heap (fst (show_data now batch v))) \<and>
           heap (fst (show_data now batch v)) ! a = \<lparr>dte_name = title v, dte_data = batch\<rparr>) \<and>
        (ui v = Some u \<and> show_data_setting (settings v) \<and>
         (grabing v \<longrightarrow> now - start_grab_time v > of_nat (refresh_time (settings v)) / 1000) \<longrightarrow>
           (\<not> take_bkg_attr v \<and>
            dte_sub \<lparr>dte_name = title v, dte_data = batch\<rparr> (heap v ! b) = Inr P \<and>
            (ui_viewer_types u = map dim batch \<longrightarrow>
               length batch \<le> length (viewers v) \<and>
               length batch \<le> length (ui_viewer_docks u)) \<longrightarrow>
              shown (snd (show_data now batch v)) = dte_data P) \<and>
           (0 < length (viewers (fst (show_data now batch v))) \<and>
            length es = length (viewers (fst (show_data now batch v))) \<longrightarrow>
              grab_done_events (snd (echoes es (fst (show_data now batch v)))) =
                [foldl dte_append \<lparr>dte_name = title v, dte_data = batch\<rparr>
                   (map (fragment_items (title v)) es)] \<and>
              saved (snd (echoes es (fst (show_data now batch v)))) =
                (if do_save_data v
                 then [foldl dte_append \<lparr>dte_name = title v, dte_data = batch\<rparr>
                         (map (fragment_items (title v)) es)]
                 else []))) \<and>
        (\<not> (ui v \<noteq> None \<and> show_data_setting (settings v) \<and>
            (grabing v \<longrightarrow> now - start_grab_time v > of_nat (refresh_time (settings v)) / 1000)) \<longrightarrow>
           shown (snd (show_data now batch v)) = [] \<and>
           grab_done_events (snd (show_data now batch v)) =
             [\<lparr>dte_name = title v, dte_data = batch\<rparr>] \<and>
           saved (snd (show_data now batch v)) =
             (if do_save_data v then [\<lparr>dte_name = title v, dte_data = batch\<rparr>] else [])))"
proof -
  let ?v' = "fst (show_data now batch v)"
  let ?D = "ui v \<noteq> None \<and> show_data_setting (settings v) \<and>
     (grabing v \<longrightarrow> now - start_grab_time v > of_nat (refresh_time (settings v)) / 1000)"
  let ?pass = "stop_overshoot (settings v) \<longrightarrow> batch = []"
  have stop: "shown (snd (show_data now batch v)) = [] \<and>
        grab_done_events (snd (show_data now batch v)) = [] \<and>
        saved (snd (show_data now batch v)) = [] \<and>
        heap ?v' = heap v \<and> bkg ?v' = bkg v"
    if s: "stop_overshoot (settings v) \<and> batch \<noteq> []"
  proof -
    have a: "stop_overshoot (settings v)" and ne: "batch \<noteq> []" using s by simp_all
    show ?thesis
      unfolding show_data_abort[OF a ne]
      by (simp add: shown_append grab_done_events_append saved_append tcp_events_quiet
          flag_ui_frame)
  qed
  have frame: "(\<exists>a. data_to_save_export ?v' = Some a \<and> a < length (heap ?v') \<and>
         heap ?v' ! a = raw_export batch v) \<and>
       take (length (heap v)) (heap ?v') = heap v \<and>
       (\<not> take_bkg_attr v \<longrightarrow> bkg ?v' = bkg v)"
    if p: ?pass
  proof (cases ?D)
    case True
    then obtain u' where u': "ui v = Some u'" by auto
    have sd: "show_data_setting (settings v)" and rf: "grabing v \<longrightarrow>
        now - start_grab_time v > of_nat (refresh_time (settings v)) / 1000"
      using True by simp_all
    note d = show_data_display[OF p u' sd rf]
    show ?thesis using d(3) d(8) d(11) by blast
  next
    case False
    note f = show_data_finish[OF p False]
    show ?thesis using f(4) f(5) f(7) by blast
  qed
  have p4: "take (length (heap v)) (heap ?v') = heap v"
  proof (cases ?pass)
    case True
    then show ?thesis using frame by blast
  next
    case False
    then show ?thesis using stop by simp
  qed
  have "length (take (length (heap v)) (heap ?v')) = length (heap v)" using p4 by simp
  then have le: "length (heap v) \<le> length (heap ?v')" by simp
  have p2: "\<not> take_bkg_attr v \<longrightarrow> bkg ?v' = Some b"
  proof (cases ?pass)
    case True
    then show ?thesis using frame assms(2) by simp
  next
    case False
    then show ?thesis using stop assms(2) by simp
  qed
  have p3: "heap ?v' ! b = heap v ! b"
    using nth_of_take[OF p4 assms(3) le] by simp
  have p0: "stop_overshoot (settings v) \<and> batch \<noteq> [] \<longrightarrow>
        shown (snd (show_data now batch v)) = [] \<and>
        grab_done_events (snd (show_data now batch v)) = [] \<and>
        saved (snd (show_data now batch v)) = [] \<and>
        heap ?v' = heap v"
    using stop by blast
  have p1: "\<exists>a. data_to_save_export ?v' = Some a \<and> a < length (heap ?v') \<and>
         heap ?v' ! a = \<lparr>dte_name = title v, dte_data = batch\<rparr>"
    if p: ?pass
    using frame[OF p] by (auto simp: raw_export_def)
  have p5: "(\<not> take_bkg_attr v \<and>
         dte_sub \<lparr>dte_name = title v, dte_data = batch\<rparr> (heap v ! b) = Inr P \<and>
         (ui_viewer_types u = map dim batch \<longrightarrow>
            length batch \<le> length (viewers v) \<and> length batch \<le> length (ui_viewer_docks u)) \<longrightarrow>
           shown (snd (show_data now batch v)) = dte_data P) \<and>
        (0 < length (viewers ?v') \<and> length es = length (viewers ?v') \<longrightarrow>
           grab_done_events (snd (echoes es ?v')) =
             [foldl dte_append \<lparr>dte_name = title v, dte_data = batch\<rparr>
                (map (fragment_items (title v)) es)] \<and>
           saved (snd (echoes es ?v')) =
             (if do_save_data v
              then [foldl dte_append \<lparr>dte_name = title v, dte_data = batch\<rparr>
                      (map (fragment_items (title v)) es)]
              else []))"
    if p: ?pass and D: "ui v = Some u \<and> show_data_setting (settings v) \<and>
      (grabing v \<longrightarrow> now - start_grab_time v > of_nat (refresh_time (settings v)) / 1000)"
  proof (intro conjI impI)
    have u: "ui v = Some u" and sd: "show_data_setting (settings v)" and rf: "grabing v \<longrightarrow>
        now - start_grab_time v > of_nat (refresh_time (settings v)) / 1000"
      using D by simp_all
    note d = show_data_display[OF p u sd rf]
    {
      assume h: "\<not> take_bkg_attr v \<and>
         dte_sub \<lparr>dte_name = title v, dte_data = batch\<rparr> (heap v ! b) = Inr P \<and>
         (ui_viewer_types u = map dim batch \<longrightarrow>
            length batch \<le> length (viewers v) \<and> length batch \<le> length (ui_viewer_docks u))"
      have s: "dte_sub (raw_export batch v) (heap v ! b) = Inr P"
        using h by (simp add: raw_export_def)
      have nt: "\<not> take_bkg_attr v" using h by simp
      have room: "ui_viewer_types u = map dim batch \<longrightarrow>
         length batch \<le> length (viewers v) \<and> length batch \<le> length (ui_viewer_docks u)"
        using h by simp
      from arranged_room[OF u room]
      obtain u' where a: "ui (arranged batch v) = Some u'"
        "length batch \<le> length (viewers (arranged batch v))"
        "length batch \<le> length (ui_viewer_docks u')" by blast
      show "shown (snd (show_data now batch v)) = dte_data P"
        by (rule show_data_shown(2)[OF p a(1) sd rf a(2,3) assms(1) nt assms(2,3) s])
    }
    {
      assume h: "0 < length (viewers ?v') \<and> length es = length (viewers ?v')"
      from d(3) obtain a where a: "data_to_save_export ?v' = Some a"
        "a < length (heap ?v')" "heap ?v' ! a = raw_export batch v" by blast
      have "ui (arranged batch v) \<noteq> None" using arranged_frame(8)[of batch v] u by simp
      then obtain u' where u': "ui ?v' = Some u'" using d(6) by auto
      have t: "title ?v' = title v" by (rule show_data_viewers(2)[OF p u sd rf])
      have K: "0 < length (viewers ?v')" "length es = length (viewers ?v')" using h by simp_all
      note run = echoes_run[OF a(1,2) u', of es]
      note all = completed_all[OF d(4) K, of a]
      show "grab_done_events (snd (echoes es ?v')) =
             [foldl dte_append \<lparr>dte_name = title v, dte_data = batch\<rparr>
                (map (fragment_items (title v)) es)]"
        using run all a(3) t by (simp add: raw_export_def foldl_dte_append)
      show "saved (snd (echoes es ?v')) =
             (if do_save_data v
              then [foldl dte_append \<lparr>dte_name = title v, dte_data = batch\<rparr>
                      (map (fragment_items (title v)) es)]
              else [])"
        using run all a(3) t d(7) by (simp add: raw_export_def foldl_dte_append)
    }
  qed
  have p6: "shown (snd (show_data now batch v)) = [] \<and>
        grab_done_events (snd (show_data now batch v)) =
          [\<lparr>dte_name = title v, dte_data = batch\<rparr>] \<and>
        saved (snd (show_data now batch v)) =
          (if do_save_data v then [\<lparr>dte_name = title v, dte_data = batch\<rparr>] else [])"
    if p: ?pass and N: "\<not> ?D"
    using show_data_finish(1,2,3)[OF p N] by (simp add: raw_export_def)
  show ?thesis using p0 p1 p2 p3 p4 p5 p6 by blast
qed

lemma with_background_sub:
  "dte_sub \<lparr>dte_name = title with_background, dte_data = sample0D [5, 7]\<rparr>
     (heap with_background ! 0) = Inr \<lparr>dte_name = ''Testing'', dte_data = sample0D [4, 5]\<rparr>"
  by (simp add: with_background_def one_viewer_def viewer_init_def sample0D_def dte_sub_def
      np_sub_def)

text \<open>The Background is \<open>[1, 2]\<close> and the batch \<open>[5, 7]\<close>: the viewer is shown \<open>[4, 5]\<close>,
  the Background keeps \<open>[1, 2]\<close>, and the export emitted after the echo starts from the
  batch \<open>[5, 7]\<close>.\<close>

theorem background_subtraction_on_copy_witness:
  "shown (snd (show_data 1 (sample0D [5, 7]) with_background)) = sample0D [4, 5] \<and>
   heap (fst (show_data 1 (sample0D [5, 7]) with_background)) ! 0 =
     \<lparr>dte_name = ''Testing'', dte_data = sample0D [1, 2]\<rparr> \<and>
   grab_done_events (snd (echoes [fragment 9]
       (fst (show_data 1 (sample0D [5, 7]) with_background)))) =
     [foldl dte_append \<lparr>dte_name = ''Testing'', dte_data = sample0D [5, 7]\<rparr>
        (map (fragment_items ''Testing'') [fragment 9])]"
proof -
  let ?u = "ui_with [Data0D] [0]"
  have h: "do_bkg with_background" "bkg with_background = Some 0"
    "0 < length (heap with_background)"
    by (simp_all add: with_background_def one_viewer_def viewer_init_def default_settings_def)
  have p: "stop_overshoot (settings with_background) \<longrightarrow> sample0D [5, 7] = []"
    by (simp add: with_background_def one_viewer_def viewer_init_def default_settings_def)
  have d: "ui with_background = Some ?u"
    "show_data_setting (settings with_background)"
    "grabing with_background \<longrightarrow>
       1 - start_grab_time with_background >
         of_nat (refresh_time (settings with_background)) / 1000"
    "\<not> take_bkg_attr with_background"
    by (simp_all add: with_background_def one_viewer_def viewer_init_def default_settings_def)
  have g: "title with_background = ''Testing''"
    "heap with_background ! 0 = \<lparr>dte_name = ''Testing'', dte_data = sample0D [1, 2]\<rparr>"
    "ui_viewer_types ?u = map dim (sample0D [5, 7])"
    "length (sample0D [5, 7]) \<le> length (viewers with_background)"
    "length (sample0D [5, 7]) \<le> length (ui_viewer_docks ?u)"
    "viewers with_background = [0]"
    by (simp_all add: with_background_def one_viewer_def viewer_init_def sample0D_def ui_with_def)
  have vs: "viewers (fst (show_data 1 (sample0D [5, 7]) with_background)) = [0]"
    using show_data_viewers(1)[OF p d(1,2,3)] g(3,6) by simp
  from background_subtraction_on_copy[OF h, of 1 "sample0D [5, 7]" ?u
      "\<lparr>dte_name = ''Testing'', dte_data = sample0D [4, 5]\<rparr>" "[fragment 9]"]
  show ?thesis using with_background_sub g d p vs by simp
qed
end
